theory Spec2Isabelle
  imports Main "HOL-Library.Sublist"
begin

section \<open>schedule.py: creating or updating a scheduled query\<close>

text \<open>
  The script builds a Data Transfer client inside a retry loop, reads a query from a file,
  builds a transfer configuration and then either updates the first remote configuration
  with the same display name (and starts a manual run of it) or creates a new one.

  Everything the script does beyond computing strings is a call into the outside world:
  loading credentials and constructing the client, reading the query file, reading the
  clock and the four requests to the remote service. Each of them is a parameter of the
  model; an exception is a value \<open>Inl e\<close> of a sum type, and the state of the remote service
  is passed through the requests explicitly.
\<close>

subsection \<open>Exceptions\<close>

text \<open>
  \<open>Error msg\<close> is an exception (a subclass of Python's \<open>Exception\<close>) raised by a
  collaborator, with \<open>str(e) = msg\<close>. \<open>UnboundLocalError v\<close> is what Python raises when the
  local variable \<open>v\<close> is read before any assignment to it.
\<close>

datatype error = Error string | UnboundLocalError string

definition quote :: string where
  "quote = [CHR 0x27]"

fun str :: "error \<Rightarrow> string" where
  "str (Error msg) = msg"
| "str (UnboundLocalError v) =
     ''local variable '' @ quote @ v @ quote @ '' referenced before assignment''"

text \<open>Python's \<open>needle in haystack\<close> on strings: \<open>needle\<close> occurs as a contiguous run.\<close>

definition str_in :: "string \<Rightarrow> string \<Rightarrow> bool" where
  "str_in needle haystack = sublist needle haystack"

subsection \<open>Transfer configurations and the client\<close>

text \<open>
  The fields of the \<open>TransferConfig\<close> message that the script reads or writes. \<open>params\<close> is
  the dictionary of the source, kept as an association list. A field that \<open>ParseDict\<close> is not
  given keeps the default of a fresh message, the empty string.
\<close>

record transfer_config =
  name :: string
  destination_dataset_id :: string
  display_name :: string
  data_source_id :: string
  params :: "(string \<times> string) list"
  schedule :: string

type_synonym timestamp = nat

text \<open>
  The client, over a remote service whose state has type \<open>'s\<close>. A request takes the state of
  the service and returns the response (or the exception raised) and the new state.
  \<open>project_path\<close> only formats a project identifier into a resource path. The second
  argument of \<open>update_transfer_config\<close> is the list of paths of the field mask.
  \<open>list_transfer_configs\<close> returns the configurations in the order in which the iteration of
  the source sees them.
\<close>

record 's client =
  project_path :: "string \<Rightarrow> string"
  list_transfer_configs :: "string \<Rightarrow> 's \<Rightarrow> (error + transfer_config list) \<times> 's"
  update_transfer_config ::
    "transfer_config \<Rightarrow> string list \<Rightarrow> 's \<Rightarrow> (error + transfer_config) \<times> 's"
  start_manual_transfer_runs :: "string \<Rightarrow> timestamp \<Rightarrow> 's \<Rightarrow> (error + unit) \<times> 's"
  create_transfer_config ::
    "string \<Rightarrow> transfer_config \<Rightarrow> 's \<Rightarrow> (error + transfer_config) \<times> 's"

text \<open>The command-line flags, with their declared default \<open>''''\<close>.\<close>

record flags =
  table :: string
  query_file :: string
  access_token :: string

text \<open>
  The surroundings of one run of the script: \<open>construct i\<close> is the outcome of the \<open>i\<close>-th
  execution (counted from 0) of the two statements that load the service-account
  credentials and construct the client, \<open>files path\<close> is the outcome of
  \<open>open(path, "r").read()\<close>, and \<open>clock\<close> is the time \<open>GetCurrentTime\<close> reads.
\<close>

record 's env =
  construct :: "nat \<Rightarrow> error + 's client"
  FLAGS :: flags
  files :: "string \<Rightarrow> error + string"
  clock :: timestamp

definition PROJECT_ID :: string where
  "PROJECT_ID = ''four-metrics''"

subsection \<open>\<open>get_bq_client\<close>\<close>

definition not_found_text :: string where
  "not_found_text = ''BigQuery Data Transfer service account is not found''"

text \<open>
  The outcome of an attempt that makes the loop go round again: an exception whose message
  contains \<open>not_found_text\<close>.
\<close>

definition transient :: "error + 's client \<Rightarrow> bool" where
  "transient r = (case r of Inl e \<Rightarrow> str_in not_found_text (str e) | Inr _ \<Rightarrow> False)"

text \<open>
  The \<open>while retry is True\<close> loop. The second argument counts the attempts; the third holds
  the local variables \<open>client\<close> and \<open>parent\<close>, \<open>None\<close> while unbound. An attempt that succeeds
  binds both and leaves the loop. An attempt that raises binds nothing; the loop is left
  when the message of the exception does not contain \<open>not_found_text\<close> and is entered again
  otherwise. The loop has no bound, so it is a partial function: \<open>None\<close> is a loop that
  never ends.
\<close>

partial_function (option) retry_loop ::
  "(nat \<Rightarrow> error + 's client) \<Rightarrow> nat \<Rightarrow> 's client option \<times> string option
     \<Rightarrow> ('s client option \<times> string option) option"
where
  "retry_loop attempt i vars =
     (case attempt i of
        Inr client \<Rightarrow> Some (Some client, Some (project_path client PROJECT_ID))
      | Inl e \<Rightarrow>
          if \<not> str_in not_found_text (str e) then Some vars
          else retry_loop attempt (Suc i) vars)"

text \<open>\<open>return client, parent\<close> reads both local variables, \<open>client\<close> first.\<close>

definition return_client_parent ::
  "'s client option \<times> string option \<Rightarrow> error + 's client \<times> string" where
  "return_client_parent vars =
     (case fst vars of
        None \<Rightarrow> Inl (UnboundLocalError ''client'')
      | Some client \<Rightarrow>
          (case snd vars of
             None \<Rightarrow> Inl (UnboundLocalError ''parent'')
           | Some parent \<Rightarrow> Inr (client, parent)))"

definition get_bq_client ::
  "(nat \<Rightarrow> error + 's client) \<Rightarrow> (error + 's client \<times> string) option" where
  "get_bq_client attempt = map_option return_client_parent (retry_loop attempt 0 (None, None))"

subsection \<open>\<open>create_or_update_scheduled_query\<close>\<close>

text \<open>The dictionary handed to \<open>ParseDict\<close>, parsed into a fresh \<open>TransferConfig\<close>.\<close>

definition new_transfer_config :: "string \<Rightarrow> string \<Rightarrow> transfer_config" where
  "new_transfer_config tbl query =
     \<lparr> name = '''',
       destination_dataset_id = ''four_keys'',
       display_name = tbl,
       data_source_id = ''scheduled_query'',
       params = [(''query'', query),
                 (''destination_table_name_template'', tbl),
                 (''write_disposition'', ''WRITE_TRUNCATE'')],
       schedule = ''every 24 hours'' \<rparr>"

text \<open>
  The \<open>for scheduled_query in ...\<close> loop over the listed configurations. \<open>Some\<close> is a
  \<open>return\<close> (or an exception) from inside the loop, \<open>None\<close> is the loop running to its end.
  The field mask \<open>{"paths": ["params"]}\<close> is the list of its paths. Building the time stamp
  reads the clock and does not raise: the module \<open>timestamp_pb2\<close> that the source names
  without importing it is loaded together with the message types of the transfer client.
\<close>

fun for_loop ::
  "'s client \<Rightarrow> string \<Rightarrow> transfer_config \<Rightarrow> timestamp \<Rightarrow> transfer_config list \<Rightarrow> 's
     \<Rightarrow> ((error + string) \<times> 's) option"
where
  "for_loop client tbl transfer_config now [] s = None"
| "for_loop client tbl transfer_config now (scheduled_query # rest) s =
     (if display_name scheduled_query = tbl then
        let transfer_config = transfer_config\<lparr>name := name scheduled_query\<rparr>;
            update_mask = [''params'']
        in (case update_transfer_config client transfer_config update_mask s of
              (Inl e, s1) \<Rightarrow> Some (Inl e, s1)
            | (Inr response, s1) \<Rightarrow>
                let run_time = now
                in (case start_manual_transfer_runs client (name transfer_config) run_time s1 of
                      (Inl e, s2) \<Rightarrow> Some (Inl e, s2)
                    | (Inr _, s2) \<Rightarrow>
                        Some (Inr (''Updated scheduled query '' @ quote @ name response @ quote),
                              s2)))
      else for_loop client tbl transfer_config now rest s)"

text \<open>The body of the function after the client has been obtained.\<close>

definition with_client ::
  "'s env \<Rightarrow> 's client \<Rightarrow> string \<Rightarrow> 's \<Rightarrow> (error + string) \<times> 's" where
  "with_client env client parent s =
     (let tbl = table (FLAGS env);
          query_file = query_file (FLAGS env)
      in case files env query_file of
           Inl e \<Rightarrow> (Inl e, s)
         | Inr query \<Rightarrow>
             let transfer_config = new_transfer_config tbl query
             in (case list_transfer_configs client parent s of
                   (Inl e, s1) \<Rightarrow> (Inl e, s1)
                 | (Inr configs, s1) \<Rightarrow>
                     (case for_loop client tbl transfer_config (clock env) configs s1 of
                        Some r \<Rightarrow> r
                      | None \<Rightarrow>
                          (case create_transfer_config client parent transfer_config s1 of
                             (Inl e, s2) \<Rightarrow> (Inl e, s2)
                           | (Inr response, s2) \<Rightarrow>
                               (Inr (''Created scheduled query '' @ quote @ name response
                                       @ quote), s2)))))"

text \<open>
  The whole function: \<open>None\<close> when the retry loop never ends, otherwise the returned string
  or the exception that ends the run, with the state the remote service is left in.
\<close>

definition create_or_update_scheduled_query ::
  "'s env \<Rightarrow> 's \<Rightarrow> ((error + string) \<times> 's) option" where
  "create_or_update_scheduled_query env s =
     (case get_bq_client (construct env) of
        None \<Rightarrow> None
      | Some (Inl e) \<Rightarrow> Some (Inl e, s)
      | Some (Inr (client, parent)) \<Rightarrow> Some (with_client env client parent s))"

subsection \<open>Recording the requests a client issues\<close>

text \<open>
  What the script does to the outside world is the sequence of requests it sends. \<open>logged c\<close>
  is the client \<open>c\<close> with every request appended to a log kept beside the state of the
  service, whether the request succeeds or raises.
\<close>

datatype request =
    ListTransferConfigs string
  | UpdateTransferConfig transfer_config "string list"
  | StartManualTransferRuns string timestamp
  | CreateTransferConfig string transfer_config

definition logged :: "'s client \<Rightarrow> ('s \<times> request list) client" where
  "logged c =
     \<lparr> project_path = project_path c,
       list_transfer_configs = (\<lambda>parent (s, log).
         case list_transfer_configs c parent s of
           (r, s') \<Rightarrow> (r, (s', log @ [ListTransferConfigs parent]))),
       update_transfer_config = (\<lambda>cfg paths (s, log).
         case update_transfer_config c cfg paths s of
           (r, s') \<Rightarrow> (r, (s', log @ [UpdateTransferConfig cfg paths]))),
       start_manual_transfer_runs = (\<lambda>nm t (s, log).
         case start_manual_transfer_runs c nm t s of
           (r, s') \<Rightarrow> (r, (s', log @ [StartManualTransferRuns nm t]))),
       create_transfer_config = (\<lambda>parent cfg (s, log).
         case create_transfer_config c parent cfg s of
           (r, s') \<Rightarrow> (r, (s', log @ [CreateTransferConfig parent cfg]))) \<rparr>"

text \<open>
  The update branch of the loop for a matching entry \<open>m\<close>, run against a logged client:
  used to describe what the loop does, entry by entry.
\<close>

definition update_and_run ::
  "'s client \<Rightarrow> transfer_config \<Rightarrow> timestamp \<Rightarrow> transfer_config \<Rightarrow> 's \<times> request list
     \<Rightarrow> (error + string) \<times> 's \<times> request list" where
  "update_and_run c cfg now m sl =
     (case sl of (s, log) \<Rightarrow>
       (case update_transfer_config c (cfg\<lparr>name := name m\<rparr>) [''params''] s of
          (Inl e, s1) \<Rightarrow>
            (Inl e, (s1, log @ [UpdateTransferConfig (cfg\<lparr>name := name m\<rparr>) [''params'']]))
        | (Inr response, s1) \<Rightarrow>
            (case start_manual_transfer_runs c (name m) now s1 of
               (Inl e, s2) \<Rightarrow>
                 (Inl e, (s2, log @ [UpdateTransferConfig (cfg\<lparr>name := name m\<rparr>) [''params''],
                                     StartManualTransferRuns (name m) now]))
             | (Inr u, s2) \<Rightarrow>
                 (Inr (''Updated scheduled query '' @ quote @ name response @ quote),
                  (s2, log @ [UpdateTransferConfig (cfg\<lparr>name := name m\<rparr>) [''params''],
                              StartManualTransferRuns (name m) now])))))"

subsection \<open>A reference model of the remote transfer service\<close>

text \<open>
  Modelled from the spec: the remote transfer service is not part of the repository. The
  model follows the contract of section 6 of the specification (\<open>listConfigs\<close>,
  \<open>createConfig\<close>, \<open>updateConfig\<close> with a field mask, \<open>triggerManualRun\<close>) and the glossary:
  a field mask restricts an update to the named fields and leaves all others of the remote
  object untouched; the resource name of a configuration is assigned by the service.
  The service holds the configurations of one parent, in the order it lists them, the
  manual runs requested so far, and a counter from which it names new configurations.
\<close>

record service =
  configs :: "transfer_config list"
  runs :: "(string \<times> timestamp) list"
  next_id :: nat

text \<open>
  Modelled from the spec: the resource name the service assigns to a new configuration, the
  parent path followed by the decimal digits of the counter. The specification only says
  that the name is an opaque identifier assigned by the remote service.
\<close>

fun digits :: "nat \<Rightarrow> string" where
  "digits n =
     (if n < 10 then [char_of (48 + n)]
      else digits (n div 10) @ [char_of (48 + n mod 10)])"

declare digits.simps [simp del]

definition resource_name :: "string \<Rightarrow> nat \<Rightarrow> string" where
  "resource_name parent k = parent @ ''/transferConfigs/'' @ digits k"

text \<open>Modelled from the spec: one path of a field mask copies one field of the request.\<close>

definition copy_field :: "transfer_config \<Rightarrow> string \<Rightarrow> transfer_config \<Rightarrow> transfer_config" where
  "copy_field new path old =
     (if path = ''params'' then old\<lparr>params := params new\<rparr>
      else if path = ''schedule'' then old\<lparr>schedule := schedule new\<rparr>
      else if path = ''display_name'' then old\<lparr>display_name := display_name new\<rparr>
      else if path = ''data_source_id'' then old\<lparr>data_source_id := data_source_id new\<rparr>
      else if path = ''destination_dataset_id''
        then old\<lparr>destination_dataset_id := destination_dataset_id new\<rparr>
      else old)"

text \<open>
  Modelled from the spec: a field mask copies the fields its paths name, one after the
  other, and leaves all other fields of the stored configuration untouched.
\<close>

definition apply_mask :: "string list \<Rightarrow> transfer_config \<Rightarrow> transfer_config \<Rightarrow> transfer_config" where
  "apply_mask paths new old = fold (copy_field new) paths old"

text \<open>Modelled from the spec: the exception for a resource name the service does not hold.\<close>

definition not_found :: error where
  "not_found = Error ''404 Requested entity was not found''"

text \<open>
  Modelled from the spec: the four operations. Creating stores the configuration under a
  new resource name at the end of the list and returns it as stored. Updating rewrites the
  masked fields of the configuration with the resource name of the request and returns it
  as stored. A manual run is recorded. Updating or running a resource name the service
  does not hold raises.
\<close>

definition svc_list :: "string \<Rightarrow> service \<Rightarrow> (error + transfer_config list) \<times> service" where
  "svc_list parent s = (Inr (configs s), s)"

definition svc_create ::
  "string \<Rightarrow> transfer_config \<Rightarrow> service \<Rightarrow> (error + transfer_config) \<times> service" where
  "svc_create parent cfg s =
     (let stored = cfg\<lparr>name := resource_name parent (next_id s)\<rparr>
      in (Inr stored, s\<lparr>configs := configs s @ [stored], next_id := Suc (next_id s)\<rparr>))"

definition svc_update ::
  "transfer_config \<Rightarrow> string list \<Rightarrow> service \<Rightarrow> (error + transfer_config) \<times> service" where
  "svc_update cfg paths s =
     (case find (\<lambda>old. name old = name cfg) (configs s) of
        None \<Rightarrow> (Inl not_found, s)
      | Some old \<Rightarrow>
          (Inr (apply_mask paths cfg old),
           s\<lparr>configs := map (\<lambda>x. if name x = name cfg then apply_mask paths cfg x else x)
                            (configs s)\<rparr>))"

definition svc_run :: "string \<Rightarrow> timestamp \<Rightarrow> service \<Rightarrow> (error + unit) \<times> service" where
  "svc_run nm t s =
     (if nm \<in> set (map name (configs s)) then (Inr (), s\<lparr>runs := runs s @ [(nm, t)]\<rparr>)
      else (Inl not_found, s))"

text \<open>
  Modelled from the spec: the client of the reference service. Its parent path is derived
  from the project identifier.
\<close>

definition service_client :: "service client" where
  "service_client =
     \<lparr> project_path = (\<lambda>project. ''projects/'' @ project),
       list_transfer_configs = svc_list,
       update_transfer_config = svc_update,
       start_manual_transfer_runs = svc_run,
       create_transfer_config = svc_create \<rparr>"

text \<open>
  Modelled from the spec: the service keeps resource names unique. No two stored
  configurations share a name, and no stored name is one the counter will hand out later.
\<close>

definition service_ok :: "service \<Rightarrow> bool" where
  "service_ok s \<longleftrightarrow>
     distinct (map name (configs s)) \<and>
     (\<forall>c \<in> set (configs s). \<forall>parent k. next_id s \<le> k \<longrightarrow> name c \<noteq> resource_name parent k)"

subsection \<open>A concrete run\<close>

text \<open>
  A service that holds three configurations, two of them with the display name
  \<open>deployments\<close>, and the surroundings of a run whose first two attempts to construct the
  client fail with the service-account message.
\<close>

definition demo_config :: "string \<Rightarrow> string \<Rightarrow> string \<Rightarrow> string \<Rightarrow> transfer_config" where
  "demo_config k tbl query cadence =
     \<lparr> name = ''projects/four-metrics/transferConfigs/'' @ k,
       destination_dataset_id = ''four_keys'',
       display_name = tbl,
       data_source_id = ''scheduled_query'',
       params = [(''query'', query),
                 (''destination_table_name_template'', tbl),
                 (''write_disposition'', ''WRITE_TRUNCATE'')],
       schedule = cadence \<rparr>"

definition demo_service :: service where
  "demo_service =
     \<lparr> configs = [demo_config ''0'' ''deployments'' ''SELECT 0'' ''every 12 hours'',
                  demo_config ''1'' ''changes'' ''SELECT 0'' ''every 24 hours'',
                  demo_config ''2'' ''deployments'' ''SELECT 0'' ''every 24 hours''],
       runs = [],
       next_id = 3 \<rparr>"

definition demo_env :: "string \<Rightarrow> string \<Rightarrow> (service \<times> request list) env" where
  "demo_env tbl query =
     \<lparr> construct = (\<lambda>i. if i < 2 then Inl (Error (''400 '' @ not_found_text @ ''.''))
                          else Inr (logged service_client)),
       FLAGS = \<lparr> table = tbl, query_file = ''query.sql'', access_token = '''' \<rparr>,
       files = (\<lambda>path. if path = ''query.sql'' then Inr query
                        else Inl (Error ''No such file or directory'')),
       clock = 1600000000 \<rparr>"

definition flaky :: "nat \<Rightarrow> error + (service \<times> request list) client" where
  "flaky i =
     (if i < 2 then Inl (Error (''400 '' @ not_found_text @ ''.''))
      else Inl (Error ''No such file or directory''))"

text \<open>Attempts that succeed only at the sixth try, after five service-account errors.\<close>

definition late_success :: "nat \<Rightarrow> error + (service \<times> request list) client" where
  "late_success i =
     (if i < 5 then Inl (Error (''400 '' @ not_found_text @ ''.''))
      else Inr (logged service_client))"

text \<open>
  The update request of a run for the table \<open>deployments\<close> with the query \<open>SELECT 1\<close>, and
  the service after it.
\<close>

definition demo_request :: transfer_config where
  "demo_request =
     (new_transfer_config ''deployments'' ''SELECT 1'')
       \<lparr>name := ''projects/four-metrics/transferConfigs/0''\<rparr>"

definition demo_updated :: service where
  "demo_updated =
     demo_service
       \<lparr>configs := [demo_config ''0'' ''deployments'' ''SELECT 1'' ''every 12 hours'',
                    demo_config ''1'' ''changes'' ''SELECT 0'' ''every 24 hours'',
                    demo_config ''2'' ''deployments'' ''SELECT 0'' ''every 24 hours'']\<rparr>"

section \<open>Properties\<close>

subsection \<open>The retry loop\<close>


lemma retry_loop_transient:
  "transient (a i) \<Longrightarrow> retry_loop a i v = retry_loop a (Suc i) v"
  by (subst retry_loop.simps) (simp add: transient_def split: sum.splits)

lemma retry_loop_skip:
  "(\<And>j. j < k \<Longrightarrow> transient (a (i + j))) \<Longrightarrow> retry_loop a i v = retry_loop a (i + k) v"
proof (induction k arbitrary: i)
  case 0
  then show ?case by simp
next
  case (Suc k)
  have "transient (a i)" using Suc.prems [of 0] by simp
  then have "retry_loop a i v = retry_loop a (Suc i) v" by (rule retry_loop_transient)
  also have "\<dots> = retry_loop a (Suc i + k) v"
  proof (rule Suc.IH)
    fix j assume "j < k"
    then show "transient (a (Suc i + j))" using Suc.prems [of "Suc j"] by simp
  qed
  finally show ?case by simp
qed

lemma retry_loop_raises:
  "a i = Inl e \<Longrightarrow> \<not> str_in not_found_text (str e) \<Longrightarrow> retry_loop a i v = Some v"
  by (subst retry_loop.simps) simp

lemma retry_loop_succeeds:
  "a i = Inr c \<Longrightarrow> retry_loop a i v = Some (Some c, Some (project_path c PROJECT_ID))"
  by (subst retry_loop.simps) simp

lemma retry_loop_Some:
  assumes "retry_loop a i v = Some r"
  shows "\<exists>j\<ge>i. \<not> transient (a j)"
proof (rule retry_loop.raw_induct [where P = "\<lambda>a i v r. \<exists>j\<ge>i. \<not> transient (a j)", OF _ assms])
  fix loop and a :: "nat \<Rightarrow> error + 'a client" and i v r
  assume IH: "\<And>a i v r. loop a i v = Some r \<Longrightarrow> \<exists>j\<ge>i. \<not> transient (a j)"
    and eq: "(case a i of
        Inl e \<Rightarrow> if \<not> str_in not_found_text (str e) then Some v else loop a (Suc i) v
      | Inr client \<Rightarrow> Some (Some client, Some (project_path client PROJECT_ID))) = Some r"
  show "\<exists>j\<ge>i. \<not> transient (a j)"
  proof (cases "transient (a i)")
    case True
    with eq have "loop a (Suc i) v = Some r"
      by (simp add: transient_def split: sum.splits)
    from IH [OF this] obtain j where "Suc i \<le> j" "\<not> transient (a j)" by blast
    then show ?thesis by (metis Suc_leD)
  next
    case False
    then show ?thesis by blast
  qed
qed

lemma retry_loop_forever:
  "(\<And>j. i \<le> j \<Longrightarrow> transient (a j)) \<Longrightarrow> retry_loop a i v = None"
  using retry_loop_Some [of a i v] by (cases "retry_loop a i v") auto

lemma get_bq_client_terminates:
  "get_bq_client a \<noteq> None \<longleftrightarrow> (\<exists>i. \<not> transient (a i))"
proof
  assume "get_bq_client a \<noteq> None"
  then obtain r where "retry_loop a 0 (None, None) = Some r"
    by (auto simp: get_bq_client_def)
  from retry_loop_Some [OF this] show "\<exists>i. \<not> transient (a i)" by blast
next
  assume "\<exists>i. \<not> transient (a i)"
  then obtain i where i: "\<not> transient (a i)" and least: "\<And>j. j < i \<Longrightarrow> transient (a j)"
    using exists_least_iff [of "\<lambda>i. \<not> transient (a i)"] by blast
  have "retry_loop a 0 (None, None) = retry_loop a (0 + i) (None, None)"
    by (rule retry_loop_skip) (simp add: least)
  moreover have "retry_loop a i (None, None) \<noteq> None"
    using i by (subst retry_loop.simps) (simp add: transient_def split: sum.splits)
  ultimately show "get_bq_client a \<noteq> None"
    by (simp add: get_bq_client_def)
qed

subsection \<open>The loop over the listed configurations\<close>

lemma logged_sel [simp]:
  "project_path (logged c) = project_path c"
  "list_transfer_configs (logged c) parent (s, log) =
     (case list_transfer_configs c parent s of
        (r, s') \<Rightarrow> (r, (s', log @ [ListTransferConfigs parent])))"
  "update_transfer_config (logged c) cfg paths (s, log) =
     (case update_transfer_config c cfg paths s of
        (r, s') \<Rightarrow> (r, (s', log @ [UpdateTransferConfig cfg paths])))"
  "start_manual_transfer_runs (logged c) nm t (s, log) =
     (case start_manual_transfer_runs c nm t s of
        (r, s') \<Rightarrow> (r, (s', log @ [StartManualTransferRuns nm t])))"
  "create_transfer_config (logged c) parent cfg (s, log) =
     (case create_transfer_config c parent cfg s of
        (r, s') \<Rightarrow> (r, (s', log @ [CreateTransferConfig parent cfg])))"
  by (simp_all add: logged_def)

lemma for_loop_logged:
  "for_loop (logged c) tbl cfg now listed (s, log) =
     map_option (\<lambda>m. update_and_run c cfg now m (s, log))
       (find (\<lambda>x. display_name x = tbl) listed)"
  by (induction listed) (auto simp: update_and_run_def Let_def split: prod.splits sum.splits)

lemma find_first_match:
  "\<forall>x\<in>set before. \<not> P x \<Longrightarrow> P m \<Longrightarrow> find P (before @ m # rest) = Some m"
  by (induction before) simp_all

lemma for_loop_first_match:
  assumes "\<forall>x\<in>set before. display_name x \<noteq> tbl" and "display_name m = tbl"
  shows "for_loop (logged c) tbl cfg now (before @ m # rest) (s, log) =
           Some (update_and_run c cfg now m (s, log))"
  using assms by (simp add: for_loop_logged find_first_match)

lemma for_loop_no_match:
  assumes "\<forall>x\<in>set listed. display_name x \<noteq> tbl"
  shows "for_loop client tbl cfg now listed s = None"
  using assms by (induction listed) simp_all

lemma run_logged:
  assumes "get_bq_client (construct env) = Some (Inr (logged c, parent))"
    and "files env (query_file (FLAGS env)) = Inr query"
    and "list_transfer_configs c parent s = (Inr listed, s1)"
  shows "create_or_update_scheduled_query env (s, log) =
     Some (case find (\<lambda>x. display_name x = table (FLAGS env)) listed of
        Some m \<Rightarrow>
          update_and_run c (new_transfer_config (table (FLAGS env)) query) (clock env) m
            (s1, log @ [ListTransferConfigs parent])
      | None \<Rightarrow>
          (case create_transfer_config c parent
                  (new_transfer_config (table (FLAGS env)) query) s1 of
             (r, s2) \<Rightarrow>
               (map_sum id (\<lambda>response. ''Created scheduled query '' @ quote @ name response @ quote) r,
                (s2, log @ [ListTransferConfigs parent,
                   CreateTransferConfig parent (new_transfer_config (table (FLAGS env)) query)]))))"
  using assms
  by (simp add: create_or_update_scheduled_query_def with_client_def for_loop_logged Let_def
      split: option.splits prod.splits sum.splits)


lemma run_trace_cases:
  assumes "get_bq_client (construct env) = Some (Inr (logged c, parent))"
    and "create_or_update_scheduled_query env (s, []) = Some (r, (s', trace))"
  shows "trace = [] \<or> trace = [ListTransferConfigs parent] \<or>
     (\<exists>query. files env (query_file (FLAGS env)) = Inr query \<and>
        (trace = [ListTransferConfigs parent,
                  CreateTransferConfig parent (new_transfer_config (table (FLAGS env)) query)] \<or>
         (\<exists>nm. trace = [ListTransferConfigs parent,
                  UpdateTransferConfig
                    ((new_transfer_config (table (FLAGS env)) query)\<lparr>name := nm\<rparr>) [''params'']] \<or>
               trace = [ListTransferConfigs parent,
                  UpdateTransferConfig
                    ((new_transfer_config (table (FLAGS env)) query)\<lparr>name := nm\<rparr>) [''params''],
                  StartManualTransferRuns nm (clock env)])))"
proof (cases "files env (query_file (FLAGS env))")
  case (Inl e)
  with assms show ?thesis
    by (simp add: create_or_update_scheduled_query_def with_client_def)
next
  case (Inr query)
  obtain lr s1 where list: "list_transfer_configs c parent s = (lr, s1)"
    by (cases "list_transfer_configs c parent s")
  show ?thesis
  proof (cases lr)
    case (Inl e)
    with assms Inr list show ?thesis
      by (simp add: create_or_update_scheduled_query_def with_client_def)
  next
    case listed: (Inr listed)
    from run_logged [OF assms(1) Inr list [unfolded listed], of "[]"] assms(2)
    show ?thesis
      by (auto simp: Inr update_and_run_def split: option.splits prod.splits sum.splits)
  qed
qed

subsection \<open>The reference service\<close>

lemma service_client_sel [simp]:
  "project_path service_client = (\<lambda>project. ''projects/'' @ project)"
  "list_transfer_configs service_client = svc_list"
  "update_transfer_config service_client = svc_update"
  "start_manual_transfer_runs service_client = svc_run"
  "create_transfer_config service_client = svc_create"
  by (simp_all add: service_client_def)

lemma apply_mask_params [simp]:
  "apply_mask [''params''] new old = old\<lparr>params := params new\<rparr>"
  by (simp add: apply_mask_def copy_field_def)

lemma svc_update_params:
  assumes "find (\<lambda>x. display_name x = tbl) (configs s) = Some m"
  shows "\<exists>old. name old = name m \<and>
     svc_update (cfg\<lparr>name := name m\<rparr>) [''params''] s =
       (Inr (old\<lparr>params := params cfg\<rparr>),
        s\<lparr>configs := map (\<lambda>x. if name x = name m then x\<lparr>params := params cfg\<rparr> else x)
                         (configs s)\<rparr>)"
proof -
  from assms have "m \<in> set (configs s)" by (auto simp: find_Some_iff)
  then obtain old where old: "find (\<lambda>old. name old = name m) (configs s) = Some old"
    by (cases "find (\<lambda>old. name old = name m) (configs s)") (auto simp: find_None_iff)
  then have "name old = name m" by (auto simp: find_Some_iff)
  with old show ?thesis by (intro exI [of _ old]) (simp add: svc_update_def)
qed

lemma svc_run_after_update:
  assumes "m \<in> set cs"
  shows "svc_run (name m) t
           (s\<lparr>configs := map (\<lambda>x. if name x = name m then x\<lparr>params := p\<rparr> else x) cs\<rparr>) =
         (Inr (), s\<lparr>configs := map (\<lambda>x. if name x = name m then x\<lparr>params := p\<rparr> else x) cs,
                     runs := runs s @ [(name m, t)]\<rparr>)"
  using assms by (auto simp: svc_run_def image_iff intro!: bexI [of _ m])

lemma run_service:
  assumes "get_bq_client (construct env) = Some (Inr (logged service_client, parent))"
  shows "create_or_update_scheduled_query env (s, log) =
     Some (case files env (query_file (FLAGS env)) of
        Inl e \<Rightarrow> (Inl e, (s, log))
      | Inr query \<Rightarrow>
          (case find (\<lambda>x. display_name x = table (FLAGS env)) (configs s) of
             None \<Rightarrow>
               (Inr (''Created scheduled query '' @ quote
                       @ resource_name parent (next_id s) @ quote),
                (s\<lparr>configs := configs s @
                      [(new_transfer_config (table (FLAGS env)) query)
                         \<lparr>name := resource_name parent (next_id s)\<rparr>],
                    next_id := Suc (next_id s)\<rparr>,
                 log @ [ListTransferConfigs parent,
                        CreateTransferConfig parent
                          (new_transfer_config (table (FLAGS env)) query)]))
           | Some m \<Rightarrow>
               (Inr (''Updated scheduled query '' @ quote @ name m @ quote),
                (s\<lparr>configs :=
                      map (\<lambda>x. if name x = name m
                                then x\<lparr>params := params (new_transfer_config (table (FLAGS env)) query)\<rparr>
                                else x) (configs s),
                    runs := runs s @ [(name m, clock env)]\<rparr>,
                 log @ [ListTransferConfigs parent,
                        UpdateTransferConfig
                          ((new_transfer_config (table (FLAGS env)) query)\<lparr>name := name m\<rparr>)
                          [''params''],
                        StartManualTransferRuns (name m) (clock env)]))))"
proof (cases "files env (query_file (FLAGS env))")
  case (Inl e)
  with assms show ?thesis
    by (simp add: create_or_update_scheduled_query_def with_client_def)
next
  case (Inr query)
  have list: "list_transfer_configs service_client parent s = (Inr (configs s), s)"
    by (simp add: svc_list_def)
  show ?thesis
  proof (cases "find (\<lambda>x. display_name x = table (FLAGS env)) (configs s)")
    case None
    then show ?thesis
      using run_logged [OF assms Inr list, of log] Inr
      by (simp add: svc_create_def Let_def)
  next
    case (Some m)
    then have "m \<in> set (configs s)" by (auto simp: find_Some_iff)
    from svc_run_after_update [OF this]
      svc_update_params [OF Some, of "new_transfer_config (table (FLAGS env)) query"]
    show ?thesis
      using run_logged [OF assms Inr list, of log] Inr Some
      by (auto simp: update_and_run_def)
  qed
qed

lemma svc_update_params_eq:
  "svc_update cfg [''params''] s =
     (case find (\<lambda>old. name old = name cfg) (configs s) of
        None \<Rightarrow> (Inl not_found, s)
      | Some old \<Rightarrow>
          (Inr (old\<lparr>params := params cfg\<rparr>),
           s\<lparr>configs := map (\<lambda>x. if name x = name cfg then x\<lparr>params := params cfg\<rparr> else x)
                            (configs s)\<rparr>))"
  by (simp add: svc_update_def split: option.splits cong: if_cong)

lemma map_update_distinct:
  assumes "distinct (map name (before @ m # rest))"
  shows "map (\<lambda>x. if name x = name m then f x else x) (before @ m # rest) = before @ f m # rest"
proof -
  have "\<forall>x\<in>set before \<union> set rest. name x \<noteq> name m"
    using assms by (auto simp: image_iff)
  then have "map (\<lambda>x. if name x = name m then f x else x) before = before"
    and "map (\<lambda>x. if name x = name m then f x else x) rest = rest"
    by (auto simp: map_idI)
  then show ?thesis by simp
qed

lemma find_name_distinct:
  assumes "distinct (map name (before @ m # rest))"
  shows "find (\<lambda>old. name old = name m) (before @ m # rest) = Some m"
proof (rule find_first_match)
  show "\<forall>x\<in>set before. \<not> name x = name m"
    using assms by (auto simp: image_iff)
qed simp

lemma digits_nonempty: "digits n \<noteq> []"
  by (subst digits.simps) simp

lemma digit_char_eq:
  "a < 10 \<Longrightarrow> b < 10 \<Longrightarrow> (char_of (48 + a) :: char) = char_of (48 + b) \<longleftrightarrow> a = (b::nat)"
  by (simp add: char_of_eq_iff take_bit_eq_mod)

lemma digit_char_no_slash: "k < 10 \<Longrightarrow> (char_of (48 + k :: nat) :: char) \<noteq> CHR ''/''"
proof
  assume k: "k < 10" and eq: "(char_of (48 + k :: nat) :: char) = CHR ''/''"
  have "(of_char (char_of (48 + k) :: char) :: nat) = 48 + k"
    using k by (simp add: take_bit_eq_mod)
  with eq show False by simp
qed

lemma digits_no_slash: "CHR ''/'' \<notin> set (digits n)"
proof (induction n rule: digits.induct)
  case (1 n)
  show ?case
  proof (cases "n < 10")
    case True
    then show ?thesis
      using digit_char_no_slash [of n] by (subst digits.simps) auto
  next
    case False
    then show ?thesis
      using "1.IH" digit_char_no_slash [of "n mod 10"] by (subst digits.simps) auto
  qed
qed

lemma digits_inj: "digits n = digits m \<Longrightarrow> n = m"
proof (induction n arbitrary: m rule: digits.induct)
  case (1 n)
  show ?case
  proof (cases "n < 10")
    case True
    show ?thesis
    proof (cases "m < 10")
      case m: True
      with True "1.prems" show ?thesis
        by (simp add: digits.simps [of n] digits.simps [of m] digit_char_eq)
    next
      case False
      with True "1.prems" digits_nonempty [of "m div 10"] show ?thesis
        by (simp add: digits.simps [of n] digits.simps [of m] Cons_eq_append_conv)
    qed
  next
    case False
    show ?thesis
    proof (cases "m < 10")
      case True
      with False "1.prems" digits_nonempty [of "n div 10"] show ?thesis
        by (simp add: digits.simps [of n] digits.simps [of m] append_eq_Cons_conv)
    next
      case m: False
      with False "1.prems" have "digits (n div 10) = digits (m div 10)"
        and "n mod 10 = m mod 10"
        by (simp_all add: digits.simps [of n] digits.simps [of m] digit_char_eq)
      with "1.IH" [OF False] have "n div 10 = m div 10" by blast
      with \<open>n mod 10 = m mod 10\<close> show ?thesis
        by (metis div_mult_mod_eq)
    qed
  qed
qed

lemma after_last_slash:
  assumes "xs @ CHR ''/'' # d = ys @ CHR ''/'' # e"
    and "CHR ''/'' \<notin> set d" and "CHR ''/'' \<notin> set e"
  shows "d = e"
proof -
  have "takeWhile (\<lambda>c. c \<noteq> CHR ''/'') (rev d @ CHR ''/'' # rev xs) = rev d"
    using assms(2) by (auto simp: takeWhile_tail)
  moreover have "takeWhile (\<lambda>c. c \<noteq> CHR ''/'') (rev e @ CHR ''/'' # rev ys) = rev e"
    using assms(3) by (auto simp: takeWhile_tail)
  moreover have "rev d @ CHR ''/'' # rev xs = rev e @ CHR ''/'' # rev ys"
    using arg_cong [OF assms(1), of rev] by simp
  ultimately show ?thesis by simp
qed

lemma resource_name_inj:
  assumes "resource_name p k = resource_name q l"
  shows "k = l"
proof -
  have "(p @ ''/transferConfigs'') @ CHR ''/'' # digits k
      = (q @ ''/transferConfigs'') @ CHR ''/'' # digits l"
    using assms by (simp add: resource_name_def)
  from after_last_slash [OF this digits_no_slash digits_no_slash]
  show ?thesis by (rule digits_inj)
qed

subsection \<open>The invariant of the reference service\<close>

lemma update_names:
  "map name (map (\<lambda>x. if name x = n then x\<lparr>params := p\<rparr> else x) cs) = map name cs"
  by (induction cs) simp_all

lemma filter_update:
  "filter (\<lambda>x. P (display_name x)) (map (\<lambda>x. if name x = n then x\<lparr>params := p\<rparr> else x) cs) =
     map (\<lambda>x. if name x = n then x\<lparr>params := p\<rparr> else x) (filter (\<lambda>x. P (display_name x)) cs)"
  by (induction cs) simp_all

lemma filter_other_name:
  assumes "a \<noteq> b"
  shows "filter (\<lambda>x. display_name x = b) xs =
         filter (\<lambda>x. display_name x = b) (filter (\<lambda>x. display_name x \<noteq> a) xs)"
  using assms by (induction xs) auto

lemma service_okD:
  assumes "service_ok s"
  shows "distinct (map name (configs s))"
    and "\<And>c p k. c \<in> set (configs s) \<Longrightarrow> next_id s \<le> k \<Longrightarrow> name c \<noteq> resource_name p k"
  using assms by (simp_all add: service_ok_def)

lemma service_ok_create:
  assumes "service_ok s"
  shows "service_ok (s\<lparr>configs := configs s @ [cfg\<lparr>name := resource_name parent (next_id s)\<rparr>],
                         next_id := Suc (next_id s)\<rparr>)"
proof -
  note d = service_okD(1) [OF assms] and f = service_okD(2) [OF assms]
  have new: "resource_name parent (next_id s) \<notin> set (map name (configs s))"
  proof
    assume "resource_name parent (next_id s) \<in> set (map name (configs s))"
    then obtain c where "c \<in> set (configs s)" "name c = resource_name parent (next_id s)"
      by auto
    with f [of c "next_id s" parent] show False by simp
  qed
  have later: "name c \<noteq> resource_name p k"
    if "c \<in> set (configs s @ [cfg\<lparr>name := resource_name parent (next_id s)\<rparr>])"
      and "Suc (next_id s) \<le> k" for c p k
  proof (cases "c \<in> set (configs s)")
    case True
    with f [of c k p] that(2) show ?thesis by simp
  next
    case False
    with that(1) have "name c = resource_name parent (next_id s)" by auto
    moreover have "next_id s \<noteq> k" using that(2) by simp
    ultimately show ?thesis using resource_name_inj [of parent "next_id s" p k] by auto
  qed
  have "distinct (map name (configs s @ [cfg\<lparr>name := resource_name parent (next_id s)\<rparr>]))"
    using d new by simp
  then show ?thesis
    unfolding service_ok_def using later by simp
qed

lemma service_ok_update:
  assumes "service_ok s"
  shows "service_ok (s\<lparr>configs := map (\<lambda>x. if name x = n then x\<lparr>params := p\<rparr> else x) (configs s),
                         runs := rs\<rparr>)"
proof -
  let ?cs = "map (\<lambda>x. if name x = n then x\<lparr>params := p\<rparr> else x) (configs s)"
  note d = service_okD(1) [OF assms] and f = service_okD(2) [OF assms]
  have names: "map name ?cs = map name (configs s)" by (rule update_names)
  have "name c \<noteq> resource_name q k" if "c \<in> set ?cs" and "next_id s \<le> k" for c q k
  proof -
    from that(1) have "name c \<in> set (map name ?cs)" by (simp only: set_map) (rule imageI)
    then have "name c \<in> set (map name (configs s))" by (simp only: names)
    then obtain c' where "c' \<in> set (configs s)" "name c' = name c" by auto
    with f [of c' k q] that(2) show ?thesis by simp
  qed
  then show ?thesis
    unfolding service_ok_def using d by (simp add: names del: map_map)
qed

lemma run_service_cases:
  assumes "get_bq_client (construct env) = Some (Inr (logged service_client, parent))"
    and "create_or_update_scheduled_query env (s, log) = Some (r, (s', t))"
  shows "s' = s \<or>
     (\<exists>query. files env (query_file (FLAGS env)) = Inr query \<and>
        ((find (\<lambda>x. display_name x = table (FLAGS env)) (configs s) = None \<and>
          s' = s\<lparr>configs := configs s @
                     [(new_transfer_config (table (FLAGS env)) query)
                        \<lparr>name := resource_name parent (next_id s)\<rparr>],
                   next_id := Suc (next_id s)\<rparr>) \<or>
         (\<exists>m. find (\<lambda>x. display_name x = table (FLAGS env)) (configs s) = Some m \<and>
           s' = s\<lparr>configs :=
                     map (\<lambda>x. if name x = name m
                               then x\<lparr>params := params (new_transfer_config (table (FLAGS env)) query)\<rparr>
                               else x) (configs s),
                   runs := runs s @ [(name m, clock env)]\<rparr>)))"
proof (cases "files env (query_file (FLAGS env))")
  case (Inl e)
  with run_service [OF assms(1), of s log] assms(2) show ?thesis by simp
next
  case (Inr query)
  show ?thesis
  proof (cases "find (\<lambda>x. display_name x = table (FLAGS env)) (configs s)")
    case None
    with run_service [OF assms(1), of s log] assms(2) Inr show ?thesis by simp
  next
    case (Some m)
    with run_service [OF assms(1), of s log] assms(2) Inr show ?thesis by simp
  qed
qed

lemma service_ok_run:
  assumes "get_bq_client (construct env) = Some (Inr (logged service_client, parent))"
    and "service_ok s"
    and "create_or_update_scheduled_query env (s, log) = Some (r, (s', t))"
  shows "service_ok s'"
  using run_service_cases [OF assms(1,3)] assms(2)
    service_ok_create [OF assms(2)] service_ok_update [OF assms(2)]
  by (elim disjE exE conjE) simp_all

lemma others_unchanged:
  assumes "get_bq_client (construct env) = Some (Inr (logged service_client, parent))"
    and "service_ok s"
    and "create_or_update_scheduled_query env (s, log) = Some (r, (s', t))"
  shows "filter (\<lambda>x. display_name x \<noteq> table (FLAGS env)) (configs s') =
         filter (\<lambda>x. display_name x \<noteq> table (FLAGS env)) (configs s)"
  using run_service_cases [OF assms(1,3)]
proof (elim disjE exE conjE)
  assume "s' = s" then show ?thesis by simp
next
  fix query
  assume "s' = s\<lparr>configs := configs s @
                     [(new_transfer_config (table (FLAGS env)) query)
                        \<lparr>name := resource_name parent (next_id s)\<rparr>],
                   next_id := Suc (next_id s)\<rparr>"
  then show ?thesis by (simp add: new_transfer_config_def)
next
  fix query m
  let ?p = "params (new_transfer_config (table (FLAGS env)) query)"
  assume f: "find (\<lambda>x. display_name x = table (FLAGS env)) (configs s) = Some m"
    and s': "s' = s\<lparr>configs := map (\<lambda>x. if name x = name m then x\<lparr>params := ?p\<rparr> else x) (configs s),
                   runs := runs s @ [(name m, clock env)]\<rparr>"
  from f have m: "m \<in> set (configs s)" "display_name m = table (FLAGS env)"
    by (auto simp: find_Some_iff)
  from assms(2) have "inj_on name (set (configs s))"
    by (simp add: service_ok_def distinct_map)
  with m have other: "name x \<noteq> name m"
    if "x \<in> set (configs s)" "display_name x \<noteq> table (FLAGS env)" for x
    using that by (auto dest: inj_onD)
  have "map (\<lambda>x. if name x = name m then x\<lparr>params := ?p\<rparr> else x)
          (filter (\<lambda>x. display_name x \<noteq> table (FLAGS env)) (configs s))
      = filter (\<lambda>x. display_name x \<noteq> table (FLAGS env)) (configs s)"
    by (rule map_idI) (use other in auto)
  then show ?thesis
    using filter_update [of "\<lambda>d. d \<noteq> table (FLAGS env)" "name m" ?p "configs s"] s' by simp
qed

lemma run_returns:
  assumes "get_bq_client (construct env) = Some (Inr (c, parent))"
  shows "\<exists>r s' t. create_or_update_scheduled_query env (s, log) = Some (r, (s', t))"
proof -
  have "create_or_update_scheduled_query env (s, log) = Some (with_client env c parent (s, log))"
    using assms by (simp add: create_or_update_scheduled_query_def)
  then show ?thesis
    by (cases "with_client env c parent (s, log)") simp
qed

subsection \<open>The concrete run\<close>

lemma str_in_middle: "str_in needle (before @ needle @ after)"
  by (simp add: str_in_def)

lemma transient_not_found [simp]:
  "transient (Inl (Error (before @ not_found_text @ after)))"
  unfolding transient_def by (simp only: sum.case str.simps str_in_middle)

lemma demo_names:
  "resource_name ''projects/four-metrics'' 0 = ''projects/four-metrics/transferConfigs/0''"
  "resource_name ''projects/four-metrics'' 3 = ''projects/four-metrics/transferConfigs/3''"
  "resource_name ''projects/four-metrics'' 4 = ''projects/four-metrics/transferConfigs/4''"
  by code_simp+

lemma demo_env_client:
  "get_bq_client (construct (demo_env tbl query)) =
     Some (Inr (logged service_client, ''projects/four-metrics''))"
proof -
  let ?a = "construct (demo_env tbl query)"
  have "\<And>j. j < 2 \<Longrightarrow> transient (?a (0 + j))"
    by (simp add: demo_env_def del: append.simps)
  then have "retry_loop ?a 0 (None, None) = retry_loop ?a (0 + 2) (None, None)"
    by (rule retry_loop_skip)
  also have "\<dots> = Some (Some (logged service_client),
                 Some (project_path (logged service_client) PROJECT_ID))"
    by (rule retry_loop_succeeds) (simp add: demo_env_def)
  finally show ?thesis
    by (simp add: get_bq_client_def return_client_parent_def PROJECT_ID_def)
qed

lemma demo_env_file:
  "files (demo_env tbl query) (query_file (FLAGS (demo_env tbl query))) = Inr query"
  by (simp add: demo_env_def)

lemma demo_env_sel [simp]:
  "table (FLAGS (demo_env tbl query)) = tbl"
  "clock (demo_env tbl query) = 1600000000"
  by (simp_all add: demo_env_def)

lemma demo_list:
  "list_transfer_configs service_client parent demo_service = (Inr (configs demo_service), demo_service)"
  by (simp add: svc_list_def)


lemma demo_run_update:
  "create_or_update_scheduled_query (demo_env ''changes'' ''SELECT 1'') (demo_service, []) =
     Some (Inr (''Updated scheduled query '' @ quote
                  @ ''projects/four-metrics/transferConfigs/1'' @ quote),
           (demo_service
              \<lparr>configs := [demo_config ''0'' ''deployments'' ''SELECT 0'' ''every 12 hours'',
                           demo_config ''1'' ''changes'' ''SELECT 1'' ''every 24 hours'',
                           demo_config ''2'' ''deployments'' ''SELECT 0'' ''every 24 hours''],
               runs := [(''projects/four-metrics/transferConfigs/1'', 1600000000)]\<rparr>,
            [ListTransferConfigs ''projects/four-metrics'',
             UpdateTransferConfig
               ((new_transfer_config ''changes'' ''SELECT 1'')
                  \<lparr>name := ''projects/four-metrics/transferConfigs/1''\<rparr>) [''params''],
             StartManualTransferRuns ''projects/four-metrics/transferConfigs/1'' 1600000000]))"
  by (simp add: run_service [OF demo_env_client] demo_env_file)
     (simp add: demo_service_def demo_config_def new_transfer_config_def)

lemma demo_run_create:
  "create_or_update_scheduled_query (demo_env ''incidents'' ''SELECT 1'') (demo_service, []) =
     Some (Inr (''Created scheduled query '' @ quote
                  @ ''projects/four-metrics/transferConfigs/3'' @ quote),
           (demo_service
              \<lparr>configs := configs demo_service @
                   [demo_config ''3'' ''incidents'' ''SELECT 1'' ''every 24 hours''],
               next_id := 4\<rparr>,
            [ListTransferConfigs ''projects/four-metrics'',
             CreateTransferConfig ''projects/four-metrics''
               (new_transfer_config ''incidents'' ''SELECT 1'')]))"
  by (simp add: run_service [OF demo_env_client] demo_env_file)
     (simp add: demo_service_def demo_config_def new_transfer_config_def demo_names)

lemma demo_run_first_match:
  "create_or_update_scheduled_query (demo_env ''deployments'' ''SELECT 1'') (demo_service, []) =
     Some (Inr (''Updated scheduled query '' @ quote
                  @ ''projects/four-metrics/transferConfigs/0'' @ quote),
           (demo_updated\<lparr>runs := [(''projects/four-metrics/transferConfigs/0'', 1600000000)]\<rparr>,
            [ListTransferConfigs ''projects/four-metrics'',
             UpdateTransferConfig demo_request [''params''],
             StartManualTransferRuns ''projects/four-metrics/transferConfigs/0'' 1600000000]))"
  by (simp add: run_service [OF demo_env_client] demo_env_file)
     (simp add: demo_service_def demo_config_def new_transfer_config_def demo_updated_def
        demo_request_def)

lemma demo_first_match_update:
  "update_transfer_config service_client
     ((new_transfer_config (table (FLAGS (demo_env ''deployments'' ''SELECT 1''))) ''SELECT 1'')
        \<lparr>name := name (demo_config ''0'' ''deployments'' ''SELECT 0'' ''every 12 hours'')\<rparr>)
     [''params''] demo_service =
   (Inr (demo_config ''0'' ''deployments'' ''SELECT 1'' ''every 12 hours''), demo_updated)"
  by (simp add: svc_update_params_eq demo_updated_def)
     (simp add: demo_service_def demo_config_def new_transfer_config_def)

lemma demo_first_match_run:
  "start_manual_transfer_runs service_client
     (name (demo_config ''0'' ''deployments'' ''SELECT 0'' ''every 12 hours''))
     (clock (demo_env ''deployments'' ''SELECT 1'')) demo_updated =
   (Inr (), demo_updated\<lparr>runs := [(''projects/four-metrics/transferConfigs/0'', 1600000000)]\<rparr>)"
  by (simp add: svc_run_def demo_updated_def demo_service_def demo_config_def)

lemma demo_first_match_list:
  "list_transfer_configs service_client parent demo_service =
     (Inr ([] @ demo_config ''0'' ''deployments'' ''SELECT 0'' ''every 12 hours''
             # [demo_config ''1'' ''changes'' ''SELECT 0'' ''every 24 hours'',
                demo_config ''2'' ''deployments'' ''SELECT 0'' ''every 24 hours'']),
      demo_service)"
  by (simp add: svc_list_def demo_service_def)

lemma demo_no_incidents:
  "\<forall>x\<in>set (configs demo_service).
      display_name x \<noteq> table (FLAGS (demo_env ''incidents'' ''SELECT 1''))"
  by (simp add: demo_service_def demo_config_def)

lemma demo_stored_names:
  "map name (configs demo_service) =
     [resource_name ''projects/four-metrics'' 0,
      resource_name ''projects/four-metrics'' (Suc 0),
      resource_name ''projects/four-metrics'' (Suc (Suc 0))]"
  by code_simp

lemma demo_service_ok: "service_ok demo_service"
proof -
  have "name c \<noteq> resource_name p k" if "c \<in> set (configs demo_service)" and "3 \<le> k" for c p k
  proof
    assume eq: "name c = resource_name p k"
    from that(1) have "name c \<in> set (map name (configs demo_service))"
      by (simp only: set_map) (rule imageI)
    then have "name c = resource_name ''projects/four-metrics'' 0 \<or>
        name c = resource_name ''projects/four-metrics'' (Suc 0) \<or>
        name c = resource_name ''projects/four-metrics'' (Suc (Suc 0))"
      by (simp only: demo_stored_names) simp
    then have "k = 0 \<or> k = Suc 0 \<or> k = Suc (Suc 0)"
      using eq resource_name_inj [of p k "''projects/four-metrics''"] by metis
    with that(2) show False by simp
  qed
  moreover have "distinct (map name (configs demo_service))"
    by (simp add: demo_service_def demo_config_def)
  moreover have "next_id demo_service = 3" by (simp add: demo_service_def)
  ultimately show ?thesis by (simp add: service_ok_def)
qed

lemma fatal_message: "\<not> str_in not_found_text ''No such file or directory''"
  by code_simp

section \<open>The claims\<close>

text \<open>
  C1. Reconciliation is an upsert keyed on the display name. With the client obtained, the
  query file read and the configurations listed: if some listed entry has the table name as
  its display name, then for such an entry \<open>m\<close> the script sends an update for \<open>m\<close>'s
  resource and, when the update and the manual run succeed, returns
  \<open>Updated scheduled query '<name>'\<close> with the name of the updated resource as the service
  returned it; if no listed entry matches, it sends exactly one create request, which
  carries the full configuration with the schedule, and returns
  \<open>Created scheduled query '<name>'\<close> with the name of the created resource.
\<close>

theorem upsert_by_display_name:
  assumes "get_bq_client (construct env) = Some (Inr (logged c, parent))"
    and "files env (query_file (FLAGS env)) = Inr query"
    and "list_transfer_configs c parent s = (Inr listed, s1)"
  shows "((\<exists>x\<in>set listed. display_name x = table (FLAGS env)) \<longrightarrow>
          (\<exists>m\<in>set listed. display_name m = table (FLAGS env) \<and>
             (\<forall>response s2 u s3.
                update_transfer_config c
                  ((new_transfer_config (table (FLAGS env)) query)\<lparr>name := name m\<rparr>)
                  [''params''] s1 = (Inr response, s2) \<longrightarrow>
                start_manual_transfer_runs c (name m) (clock env) s2 = (Inr u, s3) \<longrightarrow>
                create_or_update_scheduled_query env (s, []) =
                  Some (Inr (''Updated scheduled query '' @ quote @ name response @ quote),
                        (s3, [ListTransferConfigs parent,
                              UpdateTransferConfig
                                ((new_transfer_config (table (FLAGS env)) query)\<lparr>name := name m\<rparr>)
                                [''params''],
                              StartManualTransferRuns (name m) (clock env)]))))) \<and>
         ((\<forall>x\<in>set listed. display_name x \<noteq> table (FLAGS env)) \<longrightarrow>
          (\<forall>response s2.
             create_transfer_config c parent (new_transfer_config (table (FLAGS env)) query) s1
               = (Inr response, s2) \<longrightarrow>
             create_or_update_scheduled_query env (s, []) =
               Some (Inr (''Created scheduled query '' @ quote @ name response @ quote),
                     (s2, [ListTransferConfigs parent,
                           CreateTransferConfig parent
                             (new_transfer_config (table (FLAGS env)) query)])) \<and>
             schedule (new_transfer_config (table (FLAGS env)) query) = ''every 24 hours''))"
proof (intro conjI impI)
  assume "\<exists>x\<in>set listed. display_name x = table (FLAGS env)"
  then obtain m where m: "find (\<lambda>x. display_name x = table (FLAGS env)) listed = Some m"
    by (cases "find (\<lambda>x. display_name x = table (FLAGS env)) listed")
       (auto simp: find_None_iff)
  then have "m \<in> set listed" "display_name m = table (FLAGS env)"
    by (auto simp: find_Some_iff)
  moreover have "create_or_update_scheduled_query env (s, []) =
      Some (update_and_run c (new_transfer_config (table (FLAGS env)) query) (clock env) m
              (s1, [ListTransferConfigs parent]))"
    using run_logged [OF assms, of "[]"] m by simp
  ultimately show "\<exists>m\<in>set listed. display_name m = table (FLAGS env) \<and>
             (\<forall>response s2 u s3.
                update_transfer_config c
                  ((new_transfer_config (table (FLAGS env)) query)\<lparr>name := name m\<rparr>)
                  [''params''] s1 = (Inr response, s2) \<longrightarrow>
                start_manual_transfer_runs c (name m) (clock env) s2 = (Inr u, s3) \<longrightarrow>
                create_or_update_scheduled_query env (s, []) =
                  Some (Inr (''Updated scheduled query '' @ quote @ name response @ quote),
                        (s3, [ListTransferConfigs parent,
                              UpdateTransferConfig
                                ((new_transfer_config (table (FLAGS env)) query)\<lparr>name := name m\<rparr>)
                                [''params''],
                              StartManualTransferRuns (name m) (clock env)])))"
    by (intro bexI [of _ m]) (simp_all add: update_and_run_def)
next
  assume "\<forall>x\<in>set listed. display_name x \<noteq> table (FLAGS env)"
  then have "find (\<lambda>x. display_name x = table (FLAGS env)) listed = None"
    by (simp add: find_None_iff)
  then show "\<forall>response s2.
             create_transfer_config c parent (new_transfer_config (table (FLAGS env)) query) s1
               = (Inr response, s2) \<longrightarrow>
             create_or_update_scheduled_query env (s, []) =
               Some (Inr (''Created scheduled query '' @ quote @ name response @ quote),
                     (s2, [ListTransferConfigs parent,
                           CreateTransferConfig parent
                             (new_transfer_config (table (FLAGS env)) query)])) \<and>
             schedule (new_transfer_config (table (FLAGS env)) query) = ''every 24 hours''"
    using run_logged [OF assms, of "[]"] by (simp add: new_transfer_config_def)
qed

theorem upsert_by_display_name_witness:
  "create_or_update_scheduled_query (demo_env ''changes'' ''SELECT 1'') (demo_service, []) =
     Some (Inr (''Updated scheduled query '' @ quote
                  @ ''projects/four-metrics/transferConfigs/1'' @ quote),
           (demo_service
              \<lparr>configs := [demo_config ''0'' ''deployments'' ''SELECT 0'' ''every 12 hours'',
                           demo_config ''1'' ''changes'' ''SELECT 1'' ''every 24 hours'',
                           demo_config ''2'' ''deployments'' ''SELECT 0'' ''every 24 hours''],
               runs := [(''projects/four-metrics/transferConfigs/1'', 1600000000)]\<rparr>,
            [ListTransferConfigs ''projects/four-metrics'',
             UpdateTransferConfig
               ((new_transfer_config ''changes'' ''SELECT 1'')
                  \<lparr>name := ''projects/four-metrics/transferConfigs/1''\<rparr>) [''params''],
             StartManualTransferRuns ''projects/four-metrics/transferConfigs/1'' 1600000000])) \<and>
   create_or_update_scheduled_query (demo_env ''incidents'' ''SELECT 1'') (demo_service, []) =
     Some (Inr (''Created scheduled query '' @ quote
                  @ ''projects/four-metrics/transferConfigs/3'' @ quote),
           (demo_service
              \<lparr>configs := configs demo_service @
                   [demo_config ''3'' ''incidents'' ''SELECT 1'' ''every 24 hours''],
               next_id := 4\<rparr>,
            [ListTransferConfigs ''projects/four-metrics'',
             CreateTransferConfig ''projects/four-metrics''
               (new_transfer_config ''incidents'' ''SELECT 1'')]))"
  using
    upsert_by_display_name [OF demo_env_client demo_env_file demo_list,
      of "''changes''" "''SELECT 1''"]
    upsert_by_display_name [OF demo_env_client demo_env_file demo_list,
      of "''incidents''" "''SELECT 1''"]
  by (simp add: demo_service_def demo_config_def demo_names
      svc_update_def svc_run_def svc_create_def new_transfer_config_def Let_def)

text \<open>
  C2. Every update request that a run sends carries the field mask with exactly the path
  \<open>params\<close>. Against the reference service, whose update writes the masked fields only, an
  update therefore rewrites nothing but \<open>params\<close> of the configuration with the resource
  name of the request: display name, schedule and data source of every remote configuration
  stay as they were, although the request carries values for them.
\<close>

theorem update_mask_is_params:
  fixes c :: "service client"
  assumes "get_bq_client (construct env) = Some (Inr (logged c, parent))"
    and "create_or_update_scheduled_query env (s, []) = Some (r, (s', trace))"
  shows "\<forall>cfg paths. UpdateTransferConfig cfg paths \<in> set trace \<longrightarrow>
           paths = [''params''] \<and>
           (c = service_client \<longrightarrow>
              configs s' =
                map (\<lambda>x. if name x = name cfg then x\<lparr>params := params cfg\<rparr> else x) (configs s) \<and>
              map display_name (configs s') = map display_name (configs s) \<and>
              map schedule (configs s') = map schedule (configs s) \<and>
              map data_source_id (configs s') = map data_source_id (configs s))"
proof (intro allI impI conjI)
  fix cfg paths
  assume "UpdateTransferConfig cfg paths \<in> set trace"
  then show "paths = [''params'']"
    using run_trace_cases [OF assms] by auto
next
  fix cfg paths
  assume u: "UpdateTransferConfig cfg paths \<in> set trace" and c: "c = service_client"
  from run_service [OF assms(1) [unfolded c], of s "[]"] assms(2) u
  show cs: "configs s' =
      map (\<lambda>x. if name x = name cfg then x\<lparr>params := params cfg\<rparr> else x) (configs s)"
    by (auto split: sum.splits option.splits)
  show "map display_name (configs s') = map display_name (configs s)"
    and "map schedule (configs s') = map schedule (configs s)"
    and "map data_source_id (configs s') = map data_source_id (configs s)"
    unfolding cs by (simp_all add: comp_def if_distrib cong: if_cong)
qed

theorem update_mask_is_params_witness:
  "create_or_update_scheduled_query (demo_env ''deployments'' ''SELECT 1'') (demo_service, []) =
     Some (Inr (''Updated scheduled query '' @ quote
                  @ ''projects/four-metrics/transferConfigs/0'' @ quote),
           (demo_updated\<lparr>runs := [(''projects/four-metrics/transferConfigs/0'', 1600000000)]\<rparr>,
            [ListTransferConfigs ''projects/four-metrics'',
             UpdateTransferConfig demo_request [''params''],
             StartManualTransferRuns ''projects/four-metrics/transferConfigs/0'' 1600000000])) \<and>
   schedule demo_request = ''every 24 hours'' \<and>
   map schedule (configs (demo_updated
       \<lparr>runs := [(''projects/four-metrics/transferConfigs/0'', 1600000000)]\<rparr>)) =
     [''every 12 hours'', ''every 24 hours'', ''every 24 hours''] \<and>
   map display_name (configs (demo_updated
       \<lparr>runs := [(''projects/four-metrics/transferConfigs/0'', 1600000000)]\<rparr>)) =
     map display_name (configs demo_service) \<and>
   map data_source_id (configs (demo_updated
       \<lparr>runs := [(''projects/four-metrics/transferConfigs/0'', 1600000000)]\<rparr>)) =
     map data_source_id (configs demo_service)"
proof -
  note T = update_mask_is_params [OF demo_env_client demo_run_first_match]
  have "UpdateTransferConfig demo_request [''params''] \<in>
      set [ListTransferConfigs ''projects/four-metrics'',
           UpdateTransferConfig demo_request [''params''],
           StartManualTransferRuns ''projects/four-metrics/transferConfigs/0'' 1600000000]"
    by simp
  with T have "map display_name (configs (demo_updated
       \<lparr>runs := [(''projects/four-metrics/transferConfigs/0'', 1600000000)]\<rparr>)) =
     map display_name (configs demo_service) \<and>
    map schedule (configs (demo_updated
       \<lparr>runs := [(''projects/four-metrics/transferConfigs/0'', 1600000000)]\<rparr>)) =
     map schedule (configs demo_service) \<and>
    map data_source_id (configs (demo_updated
       \<lparr>runs := [(''projects/four-metrics/transferConfigs/0'', 1600000000)]\<rparr>)) =
     map data_source_id (configs demo_service)"
    by blast
  moreover have "map schedule (configs demo_service) =
      [''every 12 hours'', ''every 24 hours'', ''every 24 hours'']"
    by (simp add: demo_service_def demo_config_def)
  moreover have "schedule demo_request = ''every 24 hours''"
    by (simp add: demo_request_def new_transfer_config_def)
  ultimately show ?thesis using demo_run_first_match by simp
qed

text \<open>
  C3. When the listed configurations are \<open>before @ m # rest\<close>, with no entry of \<open>before\<close>
  and the entry \<open>m\<close> carrying the table name as display name (whatever \<open>rest\<close> holds, further
  matches included), the script sends one update, for the configuration with \<open>m\<close>'s resource
  name copied onto it, and one manual run of that name, and returns the name of the update
  response. Against the reference service with unique resource names that response carries
  \<open>m\<close>'s name, and the service is left with \<open>before\<close> and \<open>rest\<close> untouched and \<open>params\<close> of
  \<open>m\<close> rewritten.
\<close>

theorem first_match_only:
  fixes c :: "service client"
  assumes "get_bq_client (construct env) = Some (Inr (logged c, parent))"
    and "files env (query_file (FLAGS env)) = Inr query"
    and "list_transfer_configs c parent s = (Inr (before @ m # rest), s1)"
    and "\<forall>x\<in>set before. display_name x \<noteq> table (FLAGS env)"
    and "display_name m = table (FLAGS env)"
    and "update_transfer_config c
           ((new_transfer_config (table (FLAGS env)) query)\<lparr>name := name m\<rparr>)
           [''params''] s1 = (Inr response, s2)"
    and "start_manual_transfer_runs c (name m) (clock env) s2 = (Inr u, s3)"
  shows "create_or_update_scheduled_query env (s, []) =
           Some (Inr (''Updated scheduled query '' @ quote @ name response @ quote),
                 (s3, [ListTransferConfigs parent,
                       UpdateTransferConfig
                         ((new_transfer_config (table (FLAGS env)) query)\<lparr>name := name m\<rparr>)
                         [''params''],
                       StartManualTransferRuns (name m) (clock env)])) \<and>
         (c = service_client \<and> distinct (map name (before @ m # rest)) \<longrightarrow>
            name response = name m \<and>
            configs s3 =
              before @ m\<lparr>params := params (new_transfer_config (table (FLAGS env)) query)\<rparr>
                # rest)"
proof (intro conjI impI)
  have "find (\<lambda>x. display_name x = table (FLAGS env)) (before @ m # rest) = Some m"
    using assms(4,5) by (simp add: find_first_match)
  then show "create_or_update_scheduled_query env (s, []) =
           Some (Inr (''Updated scheduled query '' @ quote @ name response @ quote),
                 (s3, [ListTransferConfigs parent,
                       UpdateTransferConfig
                         ((new_transfer_config (table (FLAGS env)) query)\<lparr>name := name m\<rparr>)
                         [''params''],
                       StartManualTransferRuns (name m) (clock env)]))"
    using run_logged [OF assms(1-3), of "[]"] assms(6,7)
    by (simp add: update_and_run_def)
next
  assume svc: "c = service_client \<and> distinct (map name (before @ m # rest))"
  let ?cfg = "new_transfer_config (table (FLAGS env)) query"
  from svc assms(3) have s: "configs s = before @ m # rest" "s1 = s"
    by (auto simp: svc_list_def)
  from svc have d: "distinct (map name (before @ m # rest))" by simp
  have upd: "svc_update (?cfg\<lparr>name := name m\<rparr>) [''params''] s =
      (Inr (m\<lparr>params := params ?cfg\<rparr>),
       s\<lparr>configs := before @ m\<lparr>params := params ?cfg\<rparr> # rest\<rparr>)"
    using find_name_distinct [OF d] map_update_distinct [OF d, of "\<lambda>x. x\<lparr>params := params ?cfg\<rparr>"]
    by (simp add: svc_update_params_eq s cong: if_cong)
  with svc assms(6) s have r: "response = m\<lparr>params := params ?cfg\<rparr>"
    and s2: "s2 = s\<lparr>configs := before @ m\<lparr>params := params ?cfg\<rparr> # rest\<rparr>"
    by auto
  from svc assms(7) have "configs s3 = configs s2"
    by (auto simp: svc_run_def split: if_splits)
  with r s2 show "name response = name m"
    and "configs s3 = before @ m\<lparr>params := params ?cfg\<rparr> # rest"
    by simp_all
qed

theorem first_match_only_witness:
  "display_name (demo_config ''0'' ''deployments'' ''SELECT 0'' ''every 12 hours'') = ''deployments'' \<and>
   display_name (demo_config ''2'' ''deployments'' ''SELECT 0'' ''every 24 hours'') = ''deployments'' \<and>
   create_or_update_scheduled_query (demo_env ''deployments'' ''SELECT 1'') (demo_service, []) =
     Some (Inr (''Updated scheduled query '' @ quote
                  @ ''projects/four-metrics/transferConfigs/0'' @ quote),
           (demo_updated\<lparr>runs := [(''projects/four-metrics/transferConfigs/0'', 1600000000)]\<rparr>,
            [ListTransferConfigs ''projects/four-metrics'',
             UpdateTransferConfig demo_request [''params''],
             StartManualTransferRuns ''projects/four-metrics/transferConfigs/0'' 1600000000])) \<and>
   configs (demo_updated\<lparr>runs := [(''projects/four-metrics/transferConfigs/0'', 1600000000)]\<rparr>) =
     [demo_config ''0'' ''deployments'' ''SELECT 1'' ''every 12 hours'',
      demo_config ''1'' ''changes'' ''SELECT 0'' ''every 24 hours'',
      demo_config ''2'' ''deployments'' ''SELECT 0'' ''every 24 hours'']"
proof -
  have nomatch: "\<forall>x\<in>set []. display_name x \<noteq> table (FLAGS (demo_env ''deployments'' ''SELECT 1''))"
    by simp
  have match: "display_name (demo_config ''0'' ''deployments'' ''SELECT 0'' ''every 12 hours'')
      = table (FLAGS (demo_env ''deployments'' ''SELECT 1''))"
    by (simp add: demo_config_def)
  have d: "distinct (map name ([] @ demo_config ''0'' ''deployments'' ''SELECT 0'' ''every 12 hours''
             # [demo_config ''1'' ''changes'' ''SELECT 0'' ''every 24 hours'',
                demo_config ''2'' ''deployments'' ''SELECT 0'' ''every 24 hours'']))"
    by (simp add: demo_config_def)
  from first_match_only [OF demo_env_client demo_env_file demo_first_match_list nomatch match
      demo_first_match_update demo_first_match_run] d
  show ?thesis
    by (simp add: demo_config_def demo_request_def new_transfer_config_def demo_updated_def)
qed

text \<open>
  C4. Let the first \<open>i\<close> attempts raise exceptions whose message contains the
  service-account text, for any number \<open>i\<close>. Then the loop makes attempt \<open>i\<close>: if it
  succeeds, the loop ends with the client of that very attempt. If attempt \<open>i\<close> raises an
  exception with the text, the loop goes on with attempt \<open>i + 1\<close> (and ends with its client
  if that one succeeds). If attempt \<open>i\<close> raises any other exception, the loop ends at once,
  normally and with the local variables as they were, whatever later attempts would have
  given; the exception is not raised again, and what the caller gets is the
  \<open>UnboundLocalError\<close> of the \<open>return\<close> statement. If every attempt raises an exception with
  the text, the loop never ends: there is no limit on the number of attempts.
\<close>

theorem retry_only_on_not_found_text:
  assumes "\<forall>j<i. transient (attempt j)"
  shows "(\<forall>c. attempt i = Inr c \<longrightarrow>
            retry_loop attempt 0 vars = Some (Some c, Some (project_path c PROJECT_ID))) \<and>
         (\<forall>e. attempt i = Inl e \<and> str_in not_found_text (str e) \<longrightarrow>
            retry_loop attempt 0 vars = retry_loop attempt (Suc i) vars \<and>
            (\<forall>c. attempt (Suc i) = Inr c \<longrightarrow>
               retry_loop attempt 0 vars = Some (Some c, Some (project_path c PROJECT_ID)))) \<and>
         (\<forall>e. attempt i = Inl e \<and> \<not> str_in not_found_text (str e) \<longrightarrow>
            retry_loop attempt 0 vars = Some vars \<and>
            (\<forall>attempt'. (\<forall>j\<le>i. attempt' j = attempt j) \<longrightarrow>
               retry_loop attempt' 0 vars = Some vars) \<and>
            get_bq_client attempt = Some (Inl (UnboundLocalError ''client''))) \<and>
         ((\<forall>j. transient (attempt j)) \<longrightarrow>
            retry_loop attempt 0 vars = None \<and> get_bq_client attempt = None)"
proof -
  have skip: "retry_loop a 0 v = retry_loop a (0 + i) v" if "\<forall>j<i. transient (a j)" for a v
    by (rule retry_loop_skip) (simp add: that)
  have stop: "retry_loop a 0 v = Some v"
    if "\<forall>j<i. transient (a j)" "a i = Inl e" "\<not> str_in not_found_text (str e)" for a v e
    using skip [OF that(1), of v] retry_loop_raises [of a i e v, OF that(2,3)] by simp
  have succeed: "retry_loop attempt 0 vars = Some (Some c, Some (project_path c PROJECT_ID))"
    if "attempt i = Inr c" for c
    using skip [OF assms, of vars] retry_loop_succeeds [of attempt i c vars, OF that] by simp
  have again: "retry_loop attempt 0 vars = retry_loop attempt (Suc i) vars"
    if "attempt i = Inl e" "str_in not_found_text (str e)" for e
  proof -
    from that have "transient (attempt i)" by (simp add: transient_def)
    from retry_loop_transient [of attempt i vars, OF this] skip [OF assms, of vars]
    show ?thesis by simp
  qed
  have next_success: "retry_loop attempt 0 vars = Some (Some c, Some (project_path c PROJECT_ID))"
    if "attempt i = Inl e" "str_in not_found_text (str e)" "attempt (Suc i) = Inr c" for e c
    using again [OF that(1,2)] retry_loop_succeeds [of attempt "Suc i" c vars, OF that(3)]
    by simp
  have others: "retry_loop attempt' 0 vars = Some vars"
    if "attempt i = Inl e" "\<not> str_in not_found_text (str e)" "\<forall>j\<le>i. attempt' j = attempt j"
    for e attempt'
  proof (rule stop [of attempt' e])
    show "\<forall>j<i. transient (attempt' j)" using that(3) assms by simp
    show "attempt' i = Inl e" using that(1,3) by simp
    show "\<not> str_in not_found_text (str e)" by (rule that(2))
  qed
  have raised: "get_bq_client attempt = Some (Inl (UnboundLocalError ''client''))"
    if "attempt i = Inl e" "\<not> str_in not_found_text (str e)" for e
    using stop [OF assms that, of "(None, None)"]
    by (simp add: get_bq_client_def return_client_parent_def)
  have forever: "retry_loop attempt 0 v = None" if "\<forall>j. transient (attempt j)" for v
    by (rule retry_loop_forever) (simp add: that)
  show ?thesis
  proof (intro conjI allI impI)
    fix c assume "attempt i = Inr c"
    then show "retry_loop attempt 0 vars = Some (Some c, Some (project_path c PROJECT_ID))"
      by (rule succeed)
  next
    fix e assume "attempt i = Inl e \<and> str_in not_found_text (str e)"
    then show "retry_loop attempt 0 vars = retry_loop attempt (Suc i) vars"
      using again by blast
  next
    fix e c assume "attempt i = Inl e \<and> str_in not_found_text (str e)" "attempt (Suc i) = Inr c"
    then show "retry_loop attempt 0 vars = Some (Some c, Some (project_path c PROJECT_ID))"
      using next_success by blast
  next
    fix e assume "attempt i = Inl e \<and> \<not> str_in not_found_text (str e)"
    then show "retry_loop attempt 0 vars = Some vars"
      using stop [OF assms] by blast
  next
    fix e attempt'
    assume "attempt i = Inl e \<and> \<not> str_in not_found_text (str e)" "\<forall>j\<le>i. attempt' j = attempt j"
    then show "retry_loop attempt' 0 vars = Some vars"
      using others by blast
  next
    fix e assume "attempt i = Inl e \<and> \<not> str_in not_found_text (str e)"
    then show "get_bq_client attempt = Some (Inl (UnboundLocalError ''client''))"
      using raised by blast
  next
    assume "\<forall>j. transient (attempt j)"
    then show "retry_loop attempt 0 vars = None" by (rule forever)
  next
    assume "\<forall>j. transient (attempt j)"
    from forever [OF this, of "(None, None)"]
    show "get_bq_client attempt = None" by (simp add: get_bq_client_def)
  qed
qed

theorem retry_only_on_not_found_text_witness:
  "transient (flaky 0) \<and> transient (flaky 1) \<and>
   flaky 2 = Inl (Error ''No such file or directory'') \<and>
   \<not> str_in not_found_text (str (Error ''No such file or directory'')) \<and>
   retry_loop flaky 0 (None, None) = Some (None, None) \<and>
   get_bq_client flaky = Some (Inl (UnboundLocalError ''client'')) \<and>
   transient (late_success 4) \<and>
   late_success 5 = Inr (logged service_client) \<and>
   retry_loop late_success 0 (None, None) =
     Some (Some (logged service_client), Some ''projects/four-metrics'') \<and>
   retry_loop (\<lambda>i. Inl (Error not_found_text) :: error + unit client) 0 (None, None) = None"
proof -
  have t0: "transient (flaky 0)" and t1: "transient (flaky 1)"
    by (simp_all add: flaky_def del: append.simps)
  have b2: "\<forall>j<2. transient (flaky j)"
    by (simp add: flaky_def del: append.simps)
  have e2: "flaky 2 = Inl (Error ''No such file or directory'')"
    by (simp add: flaky_def)
  have m2: "\<not> str_in not_found_text (str (Error ''No such file or directory''))"
    by (simp only: str.simps fatal_message not_False_eq_True)
  have b5: "\<forall>j<5. transient (late_success j)"
    by (simp add: late_success_def del: append.simps)
  have t4: "transient (late_success 4)"
    by (simp add: late_success_def del: append.simps)
  have e5: "late_success 5 = Inr (logged service_client)"
    by (simp add: late_success_def)
  have all: "\<forall>j. transient ((\<lambda>i. Inl (Error not_found_text) :: error + unit client) j)"
    using transient_not_found [of "[]" "[]"] by simp
  note F = retry_only_on_not_found_text [OF b2, of "(None, None)"]
  note S = retry_only_on_not_found_text [OF b5, of "(None, None)"]
  note N = retry_only_on_not_found_text [of 0 "\<lambda>i. Inl (Error not_found_text) :: error + unit client"
      "(None, None)"]
  from F e2 m2 have stop: "retry_loop flaky 0 (None, None) = Some (None, None)"
    and raised: "get_bq_client flaky = Some (Inl (UnboundLocalError ''client''))"
    by blast+
  from S e5 have "retry_loop late_success 0 (None, None) =
      Some (Some (logged service_client), Some (project_path (logged service_client) PROJECT_ID))"
    by blast
  then have succ: "retry_loop late_success 0 (None, None) =
      Some (Some (logged service_client), Some ''projects/four-metrics'')"
    by (simp add: PROJECT_ID_def)
  from N all
  have never: "retry_loop (\<lambda>i. Inl (Error not_found_text) :: error + unit client) 0 (None, None)
      = None"
    by simp
  from t0 t1 e2 m2 stop raised t4 e5 succ never show ?thesis by (intro conjI)
qed

text \<open>
  C5. Against the reference service, starting with no configuration whose display name is
  the table name: the first run lists and creates, the second run with the same arguments
  lists, updates the configuration the first run created and starts a manual run of it;
  after either run exactly one configuration has the table name as display name, and the
  second run adds no configuration.
\<close>

theorem idempotent_upsert:
  assumes "get_bq_client (construct env) = Some (Inr (logged service_client, parent))"
    and "files env (query_file (FLAGS env)) = Inr query"
    and "\<forall>x\<in>set (configs s). display_name x \<noteq> table (FLAGS env)"
  shows "\<exists>s1 s2.
     create_or_update_scheduled_query env (s, []) =
       Some (Inr (''Created scheduled query '' @ quote @ resource_name parent (next_id s) @ quote),
             (s1, [ListTransferConfigs parent,
                   CreateTransferConfig parent (new_transfer_config (table (FLAGS env)) query)])) \<and>
     create_or_update_scheduled_query env (s1, []) =
       Some (Inr (''Updated scheduled query '' @ quote @ resource_name parent (next_id s) @ quote),
             (s2, [ListTransferConfigs parent,
                   UpdateTransferConfig
                     ((new_transfer_config (table (FLAGS env)) query)
                        \<lparr>name := resource_name parent (next_id s)\<rparr>) [''params''],
                   StartManualTransferRuns (resource_name parent (next_id s)) (clock env)])) \<and>
     filter (\<lambda>x. display_name x = table (FLAGS env)) (configs s1) =
       [(new_transfer_config (table (FLAGS env)) query)
          \<lparr>name := resource_name parent (next_id s)\<rparr>] \<and>
     filter (\<lambda>x. display_name x = table (FLAGS env)) (configs s2) =
       [(new_transfer_config (table (FLAGS env)) query)
          \<lparr>name := resource_name parent (next_id s)\<rparr>] \<and>
     length (configs s2) = Suc (length (configs s))"
proof -
  let ?tbl = "table (FLAGS env)"
  let ?cfg = "new_transfer_config ?tbl query"
  let ?nm = "resource_name parent (next_id s)"
  let ?stored = "?cfg\<lparr>name := ?nm\<rparr>"
  let ?s1 = "s\<lparr>configs := configs s @ [?stored], next_id := Suc (next_id s)\<rparr>"
  let ?f = "\<lambda>x. if name x = ?nm then x\<lparr>params := params ?cfg\<rparr> else x"
  let ?s2 = "?s1\<lparr>configs := map ?f (configs ?s1), runs := runs ?s1 @ [(?nm, clock env)]\<rparr>"
  have none: "find (\<lambda>x. display_name x = ?tbl) (configs s) = None"
    using assms(3) by (simp add: find_None_iff)
  have dn: "display_name ?stored = ?tbl" by (simp add: new_transfer_config_def)
  have some: "find (\<lambda>x. display_name x = ?tbl) (configs ?s1) = Some ?stored"
    using find_first_match [of "configs s" "\<lambda>x. display_name x = ?tbl" ?stored "[]"] assms(3) dn
    by simp
  have first: "create_or_update_scheduled_query env (s, []) =
       Some (Inr (''Created scheduled query '' @ quote @ ?nm @ quote),
             (?s1, [ListTransferConfigs parent, CreateTransferConfig parent ?cfg]))"
    using run_service [OF assms(1), of s "[]"] assms(2) none by simp
  have second: "create_or_update_scheduled_query env (?s1, []) =
       Some (Inr (''Updated scheduled query '' @ quote @ ?nm @ quote),
             (?s2, [ListTransferConfigs parent,
                    UpdateTransferConfig ?stored [''params''],
                    StartManualTransferRuns ?nm (clock env)]))"
    using run_service [OF assms(1), of ?s1 "[]"] assms(2) some by simp
  have empty: "filter (\<lambda>x. display_name x = ?tbl) (configs s) = []"
    using assms(3) by (simp add: filter_empty_conv)
  have f1: "filter (\<lambda>x. display_name x = ?tbl) (configs ?s1) = [?stored]"
    using empty dn by simp
  have "filter (\<lambda>x. display_name x = ?tbl) (configs ?s2) =
      map ?f (filter (\<lambda>x. display_name x = ?tbl) (configs ?s1))"
    using filter_update [of "\<lambda>d. d = ?tbl" ?nm "params ?cfg" "configs ?s1"] by simp
  also have "\<dots> = [?stored]" by (simp only: f1) simp
  finally have f2: "filter (\<lambda>x. display_name x = ?tbl) (configs ?s2) = [?stored]" .
  have len: "length (configs ?s2) = Suc (length (configs s))" by simp
  from first second f1 f2 len show ?thesis by blast
qed

theorem idempotent_upsert_witness:
  "\<exists>s1 s2.
     create_or_update_scheduled_query (demo_env ''incidents'' ''SELECT 1'') (demo_service, []) =
       Some (Inr (''Created scheduled query '' @ quote
                    @ ''projects/four-metrics/transferConfigs/3'' @ quote),
             (s1, [ListTransferConfigs ''projects/four-metrics'',
                   CreateTransferConfig ''projects/four-metrics''
                     (new_transfer_config ''incidents'' ''SELECT 1'')])) \<and>
     create_or_update_scheduled_query (demo_env ''incidents'' ''SELECT 1'') (s1, []) =
       Some (Inr (''Updated scheduled query '' @ quote
                    @ ''projects/four-metrics/transferConfigs/3'' @ quote),
             (s2, [ListTransferConfigs ''projects/four-metrics'',
                   UpdateTransferConfig
                     ((new_transfer_config ''incidents'' ''SELECT 1'')
                        \<lparr>name := ''projects/four-metrics/transferConfigs/3''\<rparr>) [''params''],
                   StartManualTransferRuns ''projects/four-metrics/transferConfigs/3''
                     1600000000])) \<and>
     filter (\<lambda>x. display_name x = ''incidents'') (configs s1) =
       [demo_config ''3'' ''incidents'' ''SELECT 1'' ''every 24 hours''] \<and>
     filter (\<lambda>x. display_name x = ''incidents'') (configs s2) =
       [demo_config ''3'' ''incidents'' ''SELECT 1'' ''every 24 hours''] \<and>
     length (configs s2) = 4"
proof -
  have n3: "next_id demo_service = 3" and l3: "length (configs demo_service) = 3"
    by (simp_all add: demo_service_def)
  have c: "(new_transfer_config ''incidents'' ''SELECT 1'')
        \<lparr>name := ''projects/four-metrics/transferConfigs/3''\<rparr>
      = demo_config ''3'' ''incidents'' ''SELECT 1'' ''every 24 hours''"
    by (simp add: new_transfer_config_def demo_config_def)
  from idempotent_upsert [OF demo_env_client demo_env_file demo_no_incidents]
  show ?thesis
    by (simp only: n3 l3 demo_names demo_env_sel c) simp
qed

text \<open>
  C6. With the client obtained, the query file read and the configurations listed: when the
  first listed entry \<open>m\<close> with the table name as display name is updated successfully, the
  run sends exactly one manual-run request, for \<open>m\<close>'s resource name and the current time,
  right after the update; when the update raises, no manual run is requested; when no entry
  matches, the run is the listing and one create request, with no manual run.
\<close>

theorem manual_run_only_after_update:
  assumes "get_bq_client (construct env) = Some (Inr (logged c, parent))"
    and "files env (query_file (FLAGS env)) = Inr query"
    and "list_transfer_configs c parent s = (Inr listed, s1)"
  shows "(\<forall>m. find (\<lambda>x. display_name x = table (FLAGS env)) listed = Some m \<longrightarrow>
           (\<forall>response s2.
              update_transfer_config c
                ((new_transfer_config (table (FLAGS env)) query)\<lparr>name := name m\<rparr>)
                [''params''] s1 = (Inr response, s2) \<longrightarrow>
              (\<exists>r s3. create_or_update_scheduled_query env (s, []) =
                 Some (r, (s3, [ListTransferConfigs parent,
                                UpdateTransferConfig
                                  ((new_transfer_config (table (FLAGS env)) query)
                                     \<lparr>name := name m\<rparr>) [''params''],
                                StartManualTransferRuns (name m) (clock env)])))) \<and>
           (\<forall>e s2.
              update_transfer_config c
                ((new_transfer_config (table (FLAGS env)) query)\<lparr>name := name m\<rparr>)
                [''params''] s1 = (Inl e, s2) \<longrightarrow>
              create_or_update_scheduled_query env (s, []) =
                 Some (Inl e, (s2, [ListTransferConfigs parent,
                                UpdateTransferConfig
                                  ((new_transfer_config (table (FLAGS env)) query)
                                     \<lparr>name := name m\<rparr>) [''params'']])))) \<and>
         ((\<forall>x\<in>set listed. display_name x \<noteq> table (FLAGS env)) \<longrightarrow>
           (\<exists>r s2. create_or_update_scheduled_query env (s, []) =
              Some (r, (s2, [ListTransferConfigs parent,
                             CreateTransferConfig parent
                               (new_transfer_config (table (FLAGS env)) query)]))))"
proof (intro conjI allI impI)
  fix m response s2
  assume "find (\<lambda>x. display_name x = table (FLAGS env)) listed = Some m"
    and "update_transfer_config c
           ((new_transfer_config (table (FLAGS env)) query)\<lparr>name := name m\<rparr>)
           [''params''] s1 = (Inr response, s2)"
  then show "\<exists>r s3. create_or_update_scheduled_query env (s, []) =
                 Some (r, (s3, [ListTransferConfigs parent,
                                UpdateTransferConfig
                                  ((new_transfer_config (table (FLAGS env)) query)
                                     \<lparr>name := name m\<rparr>) [''params''],
                                StartManualTransferRuns (name m) (clock env)]))"
    using run_logged [OF assms, of "[]"]
    by (auto simp: update_and_run_def split: prod.splits sum.splits)
next
  fix m e s2
  assume "find (\<lambda>x. display_name x = table (FLAGS env)) listed = Some m"
    and "update_transfer_config c
           ((new_transfer_config (table (FLAGS env)) query)\<lparr>name := name m\<rparr>)
           [''params''] s1 = (Inl e, s2)"
  then show "create_or_update_scheduled_query env (s, []) =
                 Some (Inl e, (s2, [ListTransferConfigs parent,
                                UpdateTransferConfig
                                  ((new_transfer_config (table (FLAGS env)) query)
                                     \<lparr>name := name m\<rparr>) [''params'']]))"
    using run_logged [OF assms, of "[]"] by (simp add: update_and_run_def)
next
  assume "\<forall>x\<in>set listed. display_name x \<noteq> table (FLAGS env)"
  then have "find (\<lambda>x. display_name x = table (FLAGS env)) listed = None"
    by (simp add: find_None_iff)
  then show "\<exists>r s2. create_or_update_scheduled_query env (s, []) =
              Some (r, (s2, [ListTransferConfigs parent,
                             CreateTransferConfig parent
                               (new_transfer_config (table (FLAGS env)) query)]))"
    using run_logged [OF assms, of "[]"] by (simp split: prod.splits)
qed

theorem manual_run_only_after_update_witness:
  "(\<exists>r s3. create_or_update_scheduled_query (demo_env ''changes'' ''SELECT 1'') (demo_service, []) =
      Some (r, (s3, [ListTransferConfigs ''projects/four-metrics'',
                     UpdateTransferConfig
                       ((new_transfer_config ''changes'' ''SELECT 1'')
                          \<lparr>name := ''projects/four-metrics/transferConfigs/1''\<rparr>) [''params''],
                     StartManualTransferRuns ''projects/four-metrics/transferConfigs/1''
                       1600000000]))) \<and>
   (\<exists>r s2. create_or_update_scheduled_query (demo_env ''incidents'' ''SELECT 1'') (demo_service, []) =
      Some (r, (s2, [ListTransferConfigs ''projects/four-metrics'',
                     CreateTransferConfig ''projects/four-metrics''
                       (new_transfer_config ''incidents'' ''SELECT 1'')])))"
proof -
  have f: "find (\<lambda>x. display_name x = table (FLAGS (demo_env ''changes'' ''SELECT 1'')))
      (configs demo_service) = Some (demo_config ''1'' ''changes'' ''SELECT 0'' ''every 24 hours'')"
    by (simp add: demo_service_def demo_config_def)
  have u: "update_transfer_config service_client
      ((new_transfer_config (table (FLAGS (demo_env ''changes'' ''SELECT 1''))) ''SELECT 1'')
         \<lparr>name := name (demo_config ''1'' ''changes'' ''SELECT 0'' ''every 24 hours'')\<rparr>)
      [''params''] demo_service =
      (Inr (demo_config ''1'' ''changes'' ''SELECT 1'' ''every 24 hours''),
       demo_service\<lparr>configs :=
         [demo_config ''0'' ''deployments'' ''SELECT 0'' ''every 12 hours'',
          demo_config ''1'' ''changes'' ''SELECT 1'' ''every 24 hours'',
          demo_config ''2'' ''deployments'' ''SELECT 0'' ''every 24 hours'']\<rparr>)"
    by (simp add: svc_update_params_eq)
       (simp add: demo_service_def demo_config_def new_transfer_config_def)
  have n: "\<forall>x\<in>set (configs demo_service).
      display_name x \<noteq> table (FLAGS (demo_env ''incidents'' ''SELECT 1''))"
    by (simp add: demo_service_def demo_config_def)
  from manual_run_only_after_update [OF demo_env_client demo_env_file demo_list,
      of "''changes''" "''SELECT 1''"] f u
  have "\<exists>r s3. create_or_update_scheduled_query (demo_env ''changes'' ''SELECT 1'') (demo_service, []) =
      Some (r, (s3, [ListTransferConfigs ''projects/four-metrics'',
                     UpdateTransferConfig
                       ((new_transfer_config (table (FLAGS (demo_env ''changes'' ''SELECT 1'')))
                           ''SELECT 1'')
                          \<lparr>name := name (demo_config ''1'' ''changes'' ''SELECT 0'' ''every 24 hours'')\<rparr>)
                       [''params''],
                     StartManualTransferRuns
                       (name (demo_config ''1'' ''changes'' ''SELECT 0'' ''every 24 hours''))
                       (clock (demo_env ''changes'' ''SELECT 1''))]))"
    by blast
  moreover from manual_run_only_after_update [OF demo_env_client demo_env_file demo_list,
      of "''incidents''" "''SELECT 1''"] n
  have "\<exists>r s2. create_or_update_scheduled_query (demo_env ''incidents'' ''SELECT 1'') (demo_service, []) =
      Some (r, (s2, [ListTransferConfigs ''projects/four-metrics'',
                     CreateTransferConfig ''projects/four-metrics''
                       (new_transfer_config (table (FLAGS (demo_env ''incidents'' ''SELECT 1'')))
                          ''SELECT 1'')]))"
    by blast
  ultimately show ?thesis by (simp add: demo_config_def)
qed

text \<open>
  C7. Against the reference service with unique resource names: a run leaves every
  configuration whose display name differs from its table name as it was. For two distinct
  table names \<open>A\<close> and \<open>B\<close>, neither held by the service, reconciling \<open>A\<close> and then \<open>B\<close> leaves
  exactly one configuration named \<open>A\<close> and one named \<open>B\<close>, under different resource names,
  and reconciling \<open>A\<close> again, with any query, leaves the configuration of \<open>B\<close> as it was.
\<close>

theorem identity_by_name:
  assumes "get_bq_client (construct envA) = Some (Inr (logged service_client, parentA))"
    and "service_ok s"
  shows "(\<forall>r s' t. create_or_update_scheduled_query envA (s, []) = Some (r, (s', t)) \<longrightarrow>
            filter (\<lambda>x. display_name x \<noteq> table (FLAGS envA)) (configs s') =
            filter (\<lambda>x. display_name x \<noteq> table (FLAGS envA)) (configs s)) \<and>
         (\<forall>envB parentB queryA queryB.
            get_bq_client (construct envB) = Some (Inr (logged service_client, parentB)) \<longrightarrow>
            files envA (query_file (FLAGS envA)) = Inr queryA \<longrightarrow>
            files envB (query_file (FLAGS envB)) = Inr queryB \<longrightarrow>
            table (FLAGS envA) \<noteq> table (FLAGS envB) \<longrightarrow>
            (\<forall>x\<in>set (configs s). display_name x \<noteq> table (FLAGS envA) \<and>
                                   display_name x \<noteq> table (FLAGS envB)) \<longrightarrow>
            (\<exists>rA sA tA rB sB tB a b.
               create_or_update_scheduled_query envA (s, []) = Some (Inr rA, (sA, tA)) \<and>
               create_or_update_scheduled_query envB (sA, []) = Some (Inr rB, (sB, tB)) \<and>
               filter (\<lambda>x. display_name x = table (FLAGS envA)) (configs sB) = [a] \<and>
               filter (\<lambda>x. display_name x = table (FLAGS envB)) (configs sB) = [b] \<and>
               name a \<noteq> name b \<and>
               (\<forall>envA' parentA' r s' t.
                  get_bq_client (construct envA') = Some (Inr (logged service_client, parentA')) \<longrightarrow>
                  table (FLAGS envA') = table (FLAGS envA) \<longrightarrow>
                  create_or_update_scheduled_query envA' (sB, []) = Some (r, (s', t)) \<longrightarrow>
                  filter (\<lambda>x. display_name x = table (FLAGS envB)) (configs s') = [b])))"
proof (intro conjI allI impI)
  fix r s' t
  assume "create_or_update_scheduled_query envA (s, []) = Some (r, (s', t))"
  from others_unchanged [OF assms this]
  show "filter (\<lambda>x. display_name x \<noteq> table (FLAGS envA)) (configs s') =
        filter (\<lambda>x. display_name x \<noteq> table (FLAGS envA)) (configs s)" .
next
  fix envB :: "(service \<times> request list) env" and parentB queryA queryB
  assume B: "get_bq_client (construct envB) = Some (Inr (logged service_client, parentB))"
    and fA: "files envA (query_file (FLAGS envA)) = Inr queryA"
    and fB: "files envB (query_file (FLAGS envB)) = Inr queryB"
    and ne: "table (FLAGS envA) \<noteq> table (FLAGS envB)"
    and fresh: "\<forall>x\<in>set (configs s). display_name x \<noteq> table (FLAGS envA) \<and>
                                      display_name x \<noteq> table (FLAGS envB)"
  let ?A = "table (FLAGS envA)" and ?B = "table (FLAGS envB)"
  let ?a = "(new_transfer_config ?A queryA)\<lparr>name := resource_name parentA (next_id s)\<rparr>"
  let ?b = "(new_transfer_config ?B queryB)\<lparr>name := resource_name parentB (Suc (next_id s))\<rparr>"
  let ?sA = "s\<lparr>configs := configs s @ [?a], next_id := Suc (next_id s)\<rparr>"
  let ?sB = "?sA\<lparr>configs := configs ?sA @ [?b], next_id := Suc (next_id ?sA)\<rparr>"
  have dn: "display_name ?a = ?A" "display_name ?b = ?B"
    by (simp_all add: new_transfer_config_def)
  have noneA: "find (\<lambda>x. display_name x = ?A) (configs s) = None"
    using fresh by (simp add: find_None_iff)
  have noneB: "find (\<lambda>x. display_name x = ?B) (configs ?sA) = None"
    using fresh ne dn by (auto simp: find_None_iff)
  have runA: "create_or_update_scheduled_query envA (s, []) =
      Some (Inr (''Created scheduled query '' @ quote @ resource_name parentA (next_id s) @ quote),
            (?sA, [ListTransferConfigs parentA,
                   CreateTransferConfig parentA (new_transfer_config ?A queryA)]))"
    using run_service [OF assms(1), of s "[]"] fA noneA by simp
  have runB: "create_or_update_scheduled_query envB (?sA, []) =
      Some (Inr (''Created scheduled query '' @ quote
                   @ resource_name parentB (Suc (next_id s)) @ quote),
            (?sB, [ListTransferConfigs parentB,
                   CreateTransferConfig parentB (new_transfer_config ?B queryB)]))"
    using run_service [OF B, of ?sA "[]"] fB noneB by simp
  have okA: "service_ok ?sA" by (rule service_ok_run [OF assms runA])
  have okB: "service_ok ?sB" by (rule service_ok_run [OF B okA runB])
  have emptyA: "filter (\<lambda>x. display_name x = ?A) (configs s) = []"
    and emptyB: "filter (\<lambda>x. display_name x = ?B) (configs s) = []"
    using fresh by (simp_all add: filter_empty_conv)
  have fa: "filter (\<lambda>x. display_name x = ?A) (configs ?sB) = [?a]"
    using emptyA dn ne by simp
  have fb: "filter (\<lambda>x. display_name x = ?B) (configs ?sB) = [?b]"
    using emptyB dn ne by simp
  have names: "name ?a \<noteq> name ?b"
    using resource_name_inj [of parentA "next_id s" parentB "Suc (next_id s)"] by auto
  have again: "filter (\<lambda>x. display_name x = ?B) (configs s') = [?b]"
    if A': "get_bq_client (construct envA') = Some (Inr (logged service_client, parentA'))"
      and tbl: "table (FLAGS envA') = ?A"
      and run: "create_or_update_scheduled_query envA' (?sB, []) = Some (r, (s', t))"
    for envA' parentA' r s' t
  proof -
    from others_unchanged [OF A' okB run] tbl
    have "filter (\<lambda>x. display_name x \<noteq> ?A) (configs s') =
          filter (\<lambda>x. display_name x \<noteq> ?A) (configs ?sB)" by simp
    then have "filter (\<lambda>x. display_name x = ?B) (configs s') =
          filter (\<lambda>x. display_name x = ?B) (configs ?sB)"
      using filter_other_name [OF ne, of "configs s'"] filter_other_name [OF ne, of "configs ?sB"]
      by simp
    with fb show ?thesis by simp
  qed
  from runA runB fa fb names again
  show "\<exists>rA sA tA rB sB tB a b.
      create_or_update_scheduled_query envA (s, []) = Some (Inr rA, (sA, tA)) \<and>
      create_or_update_scheduled_query envB (sA, []) = Some (Inr rB, (sB, tB)) \<and>
      filter (\<lambda>x. display_name x = ?A) (configs sB) = [a] \<and>
      filter (\<lambda>x. display_name x = ?B) (configs sB) = [b] \<and>
      name a \<noteq> name b \<and>
      (\<forall>envA' parentA' r s' t.
         get_bq_client (construct envA') = Some (Inr (logged service_client, parentA')) \<longrightarrow>
         table (FLAGS envA') = ?A \<longrightarrow>
         create_or_update_scheduled_query envA' (sB, []) = Some (r, (s', t)) \<longrightarrow>
         filter (\<lambda>x. display_name x = ?B) (configs s') = [b])"
    by blast
qed

theorem identity_by_name_witness:
  "service_ok demo_service \<and>
   create_or_update_scheduled_query (demo_env ''changes'' ''SELECT 1'') (demo_service, []) =
     Some (Inr (''Updated scheduled query '' @ quote
                  @ ''projects/four-metrics/transferConfigs/1'' @ quote),
           (demo_service
              \<lparr>configs := [demo_config ''0'' ''deployments'' ''SELECT 0'' ''every 12 hours'',
                           demo_config ''1'' ''changes'' ''SELECT 1'' ''every 24 hours'',
                           demo_config ''2'' ''deployments'' ''SELECT 0'' ''every 24 hours''],
               runs := [(''projects/four-metrics/transferConfigs/1'', 1600000000)]\<rparr>,
            [ListTransferConfigs ''projects/four-metrics'',
             UpdateTransferConfig
               ((new_transfer_config ''changes'' ''SELECT 1'')
                  \<lparr>name := ''projects/four-metrics/transferConfigs/1''\<rparr>) [''params''],
             StartManualTransferRuns ''projects/four-metrics/transferConfigs/1'' 1600000000])) \<and>
   filter (\<lambda>x. display_name x \<noteq> ''changes'')
     [demo_config ''0'' ''deployments'' ''SELECT 0'' ''every 12 hours'',
      demo_config ''1'' ''changes'' ''SELECT 1'' ''every 24 hours'',
      demo_config ''2'' ''deployments'' ''SELECT 0'' ''every 24 hours''] =
     filter (\<lambda>x. display_name x \<noteq> ''changes'') (configs demo_service) \<and>
   (\<exists>rA sA tA rB sB tB a b r s' t.
      create_or_update_scheduled_query (demo_env ''incidents'' ''SELECT 1'') (demo_service, [])
        = Some (Inr rA, (sA, tA)) \<and>
      create_or_update_scheduled_query (demo_env ''builds'' ''SELECT 2'') (sA, [])
        = Some (Inr rB, (sB, tB)) \<and>
      filter (\<lambda>x. display_name x = ''incidents'') (configs sB) = [a] \<and>
      filter (\<lambda>x. display_name x = ''builds'') (configs sB) = [b] \<and>
      name a \<noteq> name b \<and>
      create_or_update_scheduled_query (demo_env ''incidents'' ''SELECT 3'') (sB, [])
        = Some (r, (s', t)) \<and>
      filter (\<lambda>x. display_name x = ''builds'') (configs s') = [b])"
proof -
  note T1 = identity_by_name [OF demo_env_client demo_service_ok, of "''changes''" "''SELECT 1''",
      THEN conjunct1]
  note T2 = identity_by_name [OF demo_env_client demo_service_ok, of "''incidents''" "''SELECT 1''",
      THEN conjunct2]
  from T1 [rule_format, OF demo_run_update]
  have frame: "filter (\<lambda>x. display_name x \<noteq> ''changes'')
     [demo_config ''0'' ''deployments'' ''SELECT 0'' ''every 12 hours'',
      demo_config ''1'' ''changes'' ''SELECT 1'' ''every 24 hours'',
      demo_config ''2'' ''deployments'' ''SELECT 0'' ''every 24 hours''] =
     filter (\<lambda>x. display_name x \<noteq> ''changes'') (configs demo_service)"
    by (simp only: demo_env_sel) simp
  have ne: "table (FLAGS (demo_env ''incidents'' ''SELECT 1''))
      \<noteq> table (FLAGS (demo_env ''builds'' ''SELECT 2''))"
    by simp
  have fresh: "\<forall>x\<in>set (configs demo_service).
      display_name x \<noteq> table (FLAGS (demo_env ''incidents'' ''SELECT 1'')) \<and>
      display_name x \<noteq> table (FLAGS (demo_env ''builds'' ''SELECT 2''))"
    by (simp add: demo_service_def demo_config_def)
  note cB = demo_env_client [of "''builds''" "''SELECT 2''"]
    and fA = demo_env_file [of "''incidents''" "''SELECT 1''"]
    and fB = demo_env_file [of "''builds''" "''SELECT 2''"]
  note T3 = T2 [THEN spec, THEN spec, THEN spec, THEN spec,
      THEN mp, THEN mp, THEN mp, THEN mp, THEN mp, OF cB fA fB ne fresh]
  from T3 obtain rA sA tA rB sB tB a b where
    rA: "create_or_update_scheduled_query (demo_env ''incidents'' ''SELECT 1'') (demo_service, [])
        = Some (Inr rA, (sA, tA))"
    and rB: "create_or_update_scheduled_query (demo_env ''builds'' ''SELECT 2'') (sA, [])
        = Some (Inr rB, (sB, tB))"
    and fa: "filter (\<lambda>x. display_name x = table (FLAGS (demo_env ''incidents'' ''SELECT 1'')))
        (configs sB) = [a]"
    and fb: "filter (\<lambda>x. display_name x = table (FLAGS (demo_env ''builds'' ''SELECT 2'')))
        (configs sB) = [b]"
    and nm: "name a \<noteq> name b"
    and again: "\<forall>envA' parentA' r s' t.
      get_bq_client (construct envA') = Some (Inr (logged service_client, parentA')) \<longrightarrow>
      table (FLAGS envA') = table (FLAGS (demo_env ''incidents'' ''SELECT 1'')) \<longrightarrow>
      create_or_update_scheduled_query envA' (sB, []) = Some (r, (s', t)) \<longrightarrow>
      filter (\<lambda>x. display_name x = table (FLAGS (demo_env ''builds'' ''SELECT 2'')))
        (configs s') = [b]"
    by (elim exE conjE)
  from run_returns [OF demo_env_client, of "''incidents''" "''SELECT 3''" sB "[]"]
  obtain r s' t where
    r3: "create_or_update_scheduled_query (demo_env ''incidents'' ''SELECT 3'') (sB, [])
        = Some (r, (s', t))"
    by (elim exE)
  have t3: "table (FLAGS (demo_env ''incidents'' ''SELECT 3''))
      = table (FLAGS (demo_env ''incidents'' ''SELECT 1''))"
    by simp
  from again [rule_format, OF demo_env_client t3 r3]
  have last: "filter (\<lambda>x. display_name x = ''builds'') (configs s') = [b]"
    by (simp only: demo_env_sel)
  from fa have fa': "filter (\<lambda>x. display_name x = ''incidents'') (configs sB) = [a]"
    by (simp only: demo_env_sel)
  from fb have fb': "filter (\<lambda>x. display_name x = ''builds'') (configs sB) = [b]"
    by (simp only: demo_env_sel)
  have scenario: "\<exists>rA sA tA rB sB tB a b r s' t.
      create_or_update_scheduled_query (demo_env ''incidents'' ''SELECT 1'') (demo_service, [])
        = Some (Inr rA, (sA, tA)) \<and>
      create_or_update_scheduled_query (demo_env ''builds'' ''SELECT 2'') (sA, [])
        = Some (Inr rB, (sB, tB)) \<and>
      filter (\<lambda>x. display_name x = ''incidents'') (configs sB) = [a] \<and>
      filter (\<lambda>x. display_name x = ''builds'') (configs sB) = [b] \<and>
      name a \<noteq> name b \<and>
      create_or_update_scheduled_query (demo_env ''incidents'' ''SELECT 3'') (sB, [])
        = Some (r, (s', t)) \<and>
      filter (\<lambda>x. display_name x = ''builds'') (configs s') = [b]"
    using rA rB fa' fb' nm r3 last by (intro exI conjI)
  from demo_service_ok demo_run_update frame scenario show ?thesis
    by (intro conjI)
qed

text \<open>
  C8. Every configuration that a run sends in a create or an update request has the
  destination dataset \<open>four_keys\<close>, the table name as display name, the data source
  \<open>scheduled_query\<close>, the three parameters \<open>query\<close> (the text read from the query file),
  \<open>destination_table_name_template\<close> (the table name) and \<open>write_disposition\<close>
  (\<open>WRITE_TRUNCATE\<close>), and the schedule \<open>every 24 hours\<close>.
\<close>

theorem built_transfer_config:
  assumes "get_bq_client (construct env) = Some (Inr (logged c, parent))"
    and "files env (query_file (FLAGS env)) = Inr query"
    and "create_or_update_scheduled_query env (s, []) = Some (r, (s', trace))"
  shows "\<forall>cfg. (\<exists>p. CreateTransferConfig p cfg \<in> set trace) \<or>
               (\<exists>paths. UpdateTransferConfig cfg paths \<in> set trace) \<longrightarrow>
           destination_dataset_id cfg = ''four_keys'' \<and>
           display_name cfg = table (FLAGS env) \<and>
           data_source_id cfg = ''scheduled_query'' \<and>
           params cfg = [(''query'', query),
                         (''destination_table_name_template'', table (FLAGS env)),
                         (''write_disposition'', ''WRITE_TRUNCATE'')] \<and>
           schedule cfg = ''every 24 hours''"
  using run_trace_cases [OF assms(1) assms(3)] assms(2)
  by (auto simp: new_transfer_config_def)

theorem built_transfer_config_witness:
  "create_or_update_scheduled_query (demo_env ''incidents'' ''SELECT 1'') (demo_service, []) =
     Some (Inr (''Created scheduled query '' @ quote
                  @ ''projects/four-metrics/transferConfigs/3'' @ quote),
           (demo_service
              \<lparr>configs := configs demo_service @
                   [demo_config ''3'' ''incidents'' ''SELECT 1'' ''every 24 hours''],
               next_id := 4\<rparr>,
            [ListTransferConfigs ''projects/four-metrics'',
             CreateTransferConfig ''projects/four-metrics''
               (new_transfer_config ''incidents'' ''SELECT 1'')])) \<and>
   destination_dataset_id (new_transfer_config ''incidents'' ''SELECT 1'') = ''four_keys'' \<and>
   display_name (new_transfer_config ''incidents'' ''SELECT 1'') = ''incidents'' \<and>
   data_source_id (new_transfer_config ''incidents'' ''SELECT 1'') = ''scheduled_query'' \<and>
   params (new_transfer_config ''incidents'' ''SELECT 1'') =
     [(''query'', ''SELECT 1''),
      (''destination_table_name_template'', ''incidents''),
      (''write_disposition'', ''WRITE_TRUNCATE'')] \<and>
   schedule (new_transfer_config ''incidents'' ''SELECT 1'') = ''every 24 hours''"
proof -
  note built_transfer_config [OF demo_env_client demo_env_file demo_run_create]
  then have "destination_dataset_id (new_transfer_config ''incidents'' ''SELECT 1'') = ''four_keys'' \<and>
     display_name (new_transfer_config ''incidents'' ''SELECT 1'')
       = table (FLAGS (demo_env ''incidents'' ''SELECT 1'')) \<and>
     data_source_id (new_transfer_config ''incidents'' ''SELECT 1'') = ''scheduled_query'' \<and>
     params (new_transfer_config ''incidents'' ''SELECT 1'') =
       [(''query'', ''SELECT 1''),
        (''destination_table_name_template'', table (FLAGS (demo_env ''incidents'' ''SELECT 1''))),
        (''write_disposition'', ''WRITE_TRUNCATE'')] \<and>
     schedule (new_transfer_config ''incidents'' ''SELECT 1'') = ''every 24 hours''"
    by (elim allE [of _ "new_transfer_config ''incidents'' ''SELECT 1''"] impE)
       (rule disjI1, rule exI [of _ "''projects/four-metrics''"], simp, assumption)
  with demo_run_create show ?thesis by (simp only: demo_env_sel) 
qed

text \<open>
  C9. \<open>get_bq_client\<close> returns (a pair or an exception) exactly when some attempt succeeds or
  raises an exception without the service-account text; it runs forever exactly when every
  attempt raises an exception with that text.
\<close>

theorem get_bq_client_returns_iff:
  "get_bq_client attempt \<noteq> None \<longleftrightarrow> (\<exists>i. \<not> transient (attempt i))"
  by (rule get_bq_client_terminates)


theorem get_bq_client_returns_iff_witness:
  "get_bq_client flaky \<noteq> None \<and>
   get_bq_client (\<lambda>i. Inl (Error not_found_text) :: error + unit client) = None"
proof -
  have "\<not> transient (flaky 2)"
    by (simp add: flaky_def transient_def fatal_message)
  moreover have "transient (Inl (Error not_found_text) :: error + unit client)"
    using transient_not_found [of "[]" "[]"] by simp
  ultimately show ?thesis
    using get_bq_client_returns_iff [of flaky]
      get_bq_client_returns_iff [of "\<lambda>i. Inl (Error not_found_text) :: error + unit client"]
    by auto
qed

text \<open>
  C10. If the first attempt raises an exception whose message does not contain the
  service-account text, the loop ends with \<open>client\<close> and \<open>parent\<close> still unbound, and
  \<open>return client, parent\<close> raises \<open>UnboundLocalError\<close>: \<open>get_bq_client\<close> does not return a
  client, and the script ends with that exception without sending a request.
\<close>

theorem first_error_gives_unbound_local:
  assumes "attempt 0 = Inl e" and "\<not> str_in not_found_text (str e)"
  shows "retry_loop attempt 0 (None, None) = Some (None, None) \<and>
         get_bq_client attempt = Some (Inl (UnboundLocalError ''client'')) \<and>
         (\<forall>env s. construct env = attempt \<longrightarrow>
            create_or_update_scheduled_query env s = Some (Inl (UnboundLocalError ''client''), s))"
  using retry_loop_raises [of attempt 0 e "(None, None)", OF assms]
  by (auto simp: get_bq_client_def return_client_parent_def create_or_update_scheduled_query_def)


theorem first_error_gives_unbound_local_witness:
  "(\<lambda>i. Inl (Error ''No such file or directory'') :: error + service client) 0
     = Inl (Error ''No such file or directory'') \<and>
   \<not> str_in not_found_text (str (Error ''No such file or directory'')) \<and>
   get_bq_client (\<lambda>i. Inl (Error ''No such file or directory'') :: error + service client)
     = Some (Inl (UnboundLocalError ''client''))"
proof -
  have m: "\<not> str_in not_found_text (str (Error ''No such file or directory''))"
    by (simp only: str.simps fatal_message not_False_eq_True)
  from first_error_gives_unbound_local
    [of "\<lambda>i. Inl (Error ''No such file or directory'') :: error + service client", OF refl m] m
  show ?thesis by simp
qed

end
